theory Spec2Isabelle
  imports Main
begin

section \<open>ATC wrappers of sap/adt/atc.py\<close>

text \<open>
  The module talks to the remote system through a connection object whose only operation
  is \<^verbatim>\<open>execute(method, path, params, accept, content_type, body)\<close>, returning a response
  with a \<^verbatim>\<open>text\<close>, or raising. The connection is not part of the module: it is modelled
  as a function on an outside world \<open>'w\<close> (the server and everything the connection keeps),
  which returns either the exception \<open>'e\<close> it raised or the response, and the new world.
  Keyword arguments a call does not pass are \<open>None\<close> (\<open>[]\<close> for \<open>params\<close>).
\<close>

subsection \<open>The connection\<close>

datatype accept_header = AcceptOne string | AcceptList "string list"

record request =
  http_method :: string
  path :: string
  params :: "(string \<times> string) list"
  accept :: "accept_header option"
  content_type :: "string option"
  body :: "string option"

record response =
  resp_text :: string

type_synonym ('w, 'e) connection = "request \<Rightarrow> 'w \<Rightarrow> ('e + response) \<times> 'w"

text \<open>
  The world is paired with the trace of every request handed to a connection, in the order
  of the calls, so that theorems can count requests. A request is recorded whether the
  connection answers or raises.
\<close>

record 'w net =
  world :: 'w
  trace :: "request list"

definition execute :: "('w, 'e) connection \<Rightarrow> request \<Rightarrow> 'w net \<Rightarrow> ('e + response) \<times> 'w net" where
  "execute conn req n =
     (case conn req (world n) of
        (r, w') \<Rightarrow> (r, \<lparr>world = w', trace = trace n @ [req]\<rparr>))"

subsection \<open>ChecksRunner\<close>

text \<open>
  \<^verbatim>\<open>ChecksRunner.__init__\<close> stores the connection and the variant and sets
  \<^verbatim>\<open>_worklist_id\<close> to \<open>None\<close>. Every method returns its result (or the exception
  that left it) together with the object and the net as they are when the method is left:
  an assignment made before an exception stays made.
\<close>

record ('w, 'e) checks_runner =
  connection :: "('w, 'e) connection"
  variant :: string
  worklist_id :: "string option"

definition ChecksRunner :: "('w, 'e) connection \<Rightarrow> string \<Rightarrow> ('w, 'e) checks_runner" where
  "ChecksRunner conn v = \<lparr>connection = conn, variant = v, worklist_id = None\<rparr>"

definition worklists_request :: "string \<Rightarrow> request" where
  "worklists_request v =
     \<lparr>http_method = ''POST'', path = ''atc/worklists'', params = [(''checkVariant'', v)],
      accept = Some (AcceptOne ''text/plain''), content_type = None, body = None\<rparr>"

definition get_id ::
  "('w, 'e) checks_runner \<Rightarrow> 'w net \<Rightarrow> ('e + string) \<times> ('w, 'e) checks_runner \<times> 'w net" where
  "get_id self n =
     (case worklist_id self of
        None \<Rightarrow>
          (case execute (connection self) (worklists_request (variant self)) n of
             (Inl e, n') \<Rightarrow> (Inl e, self, n')
           | (Inr resp, n') \<Rightarrow> (Inr (resp_text resp), self\<lparr>worklist_id := Some (resp_text resp)\<rparr>, n'))
      | Some i \<Rightarrow> (Inr i, self, n))"

text \<open>
  \<^verbatim>\<open>RunRequest(obj_sets, max_verdicts)\<close> keeps its two arguments. The object sets are
  an instance of a class of another module; the runner only passes them on, so their type is
  a parameter.
\<close>

record 's run_request =
  sets :: 's
  max_verdicts :: int

definition RunRequest :: "'s \<Rightarrow> int \<Rightarrow> 's run_request" where
  "RunRequest obj_sets mv = \<lparr>sets = obj_sets, max_verdicts = mv\<rparr>"

text \<open>
  \<^verbatim>\<open>Marshal\<close> lives in sap/adt/marshalling.py. \<^verbatim>\<open>run_for\<close> uses it three times:
  to serialize the run request, to fill a new \<^verbatim>\<open>RunResponse()\<close> from a text and to fill a
  new \<^verbatim>\<open>WorkList()\<close> from a text. The three uses are parameters of the model; each may
  raise.
\<close>

record ('s, 'rr, 'wl, 'e) marshal =
  serialize :: "'s run_request \<Rightarrow> 'e + string"
  deserialize_run_response :: "string \<Rightarrow> 'e + 'rr"
  deserialize_worklist :: "string \<Rightarrow> 'e + 'wl"

definition runs_request :: "string \<Rightarrow> string \<Rightarrow> request" where
  "runs_request i b =
     \<lparr>http_method = ''POST'', path = ''atc/runs'', params = [(''worklistId'', i)],
      accept = Some (AcceptOne ''application/xml''), content_type = Some ''application/xml'',
      body = Some b\<rparr>"

definition worklist_request :: "string \<Rightarrow> request" where
  "worklist_request i =
     \<lparr>http_method = ''GET'', path = ''atc/worklists/'' @ i,
      params = [(''includeExemptedFindings'', ''false'')],
      accept = Some (AcceptOne ''application/atc.worklist.v1+xml''), content_type = None,
      body = None\<rparr>"

text \<open>\<^verbatim>\<open>WorkListRunResult\<close> is the named tuple (run_response, worklist).\<close>

record ('rr, 'wl) work_list_run_result =
  run_response :: 'rr
  worklist :: 'wl

definition run_for ::
  "('s, 'rr, 'wl, 'e) marshal \<Rightarrow> ('w, 'e) checks_runner \<Rightarrow> 's \<Rightarrow> int \<Rightarrow> 'w net \<Rightarrow>
     ('e + ('rr, 'wl) work_list_run_result) \<times> ('w, 'e) checks_runner \<times> 'w net" where
  "run_for M self obj_sets mv n =
     (case serialize M (RunRequest obj_sets mv) of
        Inl e \<Rightarrow> (Inl e, self, n)
      | Inr request \<Rightarrow>
     (case get_id self n of
        (Inl e, self1, n1) \<Rightarrow> (Inl e, self1, n1)
      | (Inr wid, self1, n1) \<Rightarrow>
     (case execute (connection self1) (runs_request wid request) n1 of
        (Inl e, n2) \<Rightarrow> (Inl e, self1, n2)
      | (Inr resp, n2) \<Rightarrow>
     (case deserialize_run_response M (resp_text resp) of
        Inl e \<Rightarrow> (Inl e, self1, n2)
      | Inr rr \<Rightarrow>
     (case execute (connection self1) (worklist_request wid) n2 of
        (Inl e, n3) \<Rightarrow> (Inl e, self1, n3)
      | (Inr resp', n3) \<Rightarrow>
     (case deserialize_worklist M (resp_text resp') of
        Inl e \<Rightarrow> (Inl e, self1, n3)
      | Inr wl \<Rightarrow> (Inr \<lparr>run_response = rr, worklist = wl\<rparr>, self1, n3)))))))"

text \<open>The parameter \<^verbatim>\<open>max_verdicts\<close> has the default 100: \<open>None\<close> is a call without it.\<close>

definition run_for_call ::
  "('s, 'rr, 'wl, 'e) marshal \<Rightarrow> ('w, 'e) checks_runner \<Rightarrow> 's \<Rightarrow> int option \<Rightarrow> 'w net \<Rightarrow>
     ('e + ('rr, 'wl) work_list_run_result) \<times> ('w, 'e) checks_runner \<times> 'w net" where
  "run_for_call M self obj_sets mvo n =
     run_for M self obj_sets (case mvo of None \<Rightarrow> 100 | Some mv \<Rightarrow> mv) n"


text \<open>
  A caller may call the two methods in any order and may catch what they raise. A history
  of calls on one runner is a list of calls; the history goes on after a call that raised.
\<close>

datatype 's call = GetId | RunFor 's "int option"

fun call_step ::
  "('s, 'rr, 'wl, 'e) marshal \<Rightarrow> 's call \<Rightarrow> ('w, 'e) checks_runner \<times> 'w net \<Rightarrow>
     ('w, 'e) checks_runner \<times> 'w net" where
  "call_step M GetId (self, n) = (case get_id self n of (r, self', n') \<Rightarrow> (self', n'))"
| "call_step M (RunFor s mvo) (self, n) =
     (case run_for_call M self s mvo n of (r, self', n') \<Rightarrow> (self', n'))"

definition calls ::
  "('s, 'rr, 'wl, 'e) marshal \<Rightarrow> 's call list \<Rightarrow> ('w, 'e) checks_runner \<times> 'w net \<Rightarrow>
     ('w, 'e) checks_runner \<times> 'w net" where
  "calls M cs st = foldl (\<lambda>st c. call_step M c st) st cs"

text \<open>
  Callers that overlap. \<^verbatim>\<open>_get_id\<close> is four statements: the test of
  \<^verbatim>\<open>self._worklist_id is None\<close>, the call of \<^verbatim>\<open>execute\<close>, the assignment of
  \<^verbatim>\<open>resp.text\<close> to \<^verbatim>\<open>self._worklist_id\<close>, and the \<^verbatim>\<open>return\<close> of
  \<^verbatim>\<open>self._worklist_id\<close>. The method holds no lock, so that between two statements of
  one caller another caller of the same runner may move. A caller is at one of the
  statements, or has returned or raised; each step of a caller is one statement, on the
  runner and the net that all callers share. A schedule names the caller that moves next.
\<close>

datatype 'e pc =
  AtTest
| AtExecute
| AtAssign response
| AtReturn
| Returned "string option"
| Raised 'e

fun statement ::
  "'e pc \<Rightarrow> ('w, 'e) checks_runner \<times> 'w net \<Rightarrow> 'e pc \<times> ('w, 'e) checks_runner \<times> 'w net" where
  "statement AtTest (self, n) =
     (if worklist_id self = None then AtExecute else AtReturn, self, n)"
| "statement AtExecute (self, n) =
     (case execute (connection self) (worklists_request (variant self)) n of
        (Inl e, n') \<Rightarrow> (Raised e, self, n')
      | (Inr resp, n') \<Rightarrow> (AtAssign resp, self, n'))"
| "statement (AtAssign resp) (self, n) =
     (AtReturn, self\<lparr>worklist_id := Some (resp_text resp)\<rparr>, n)"
| "statement AtReturn (self, n) = (Returned (worklist_id self), self, n)"
| "statement (Returned r) (self, n) = (Returned r, self, n)"
| "statement (Raised e) (self, n) = (Raised e, self, n)"

fun caller_step ::
  "'e pc list \<times> ('w, 'e) checks_runner \<times> 'w net \<Rightarrow> nat \<Rightarrow>
     'e pc list \<times> ('w, 'e) checks_runner \<times> 'w net" where
  "caller_step (pcs, self, n) t =
     (if t < length pcs
      then (case statement (pcs ! t) (self, n) of (pc', self', n') \<Rightarrow> (pcs[t := pc'], self', n'))
      else (pcs, self, n))"

definition run_schedule ::
  "'e pc list \<times> ('w, 'e) checks_runner \<times> 'w net \<Rightarrow> nat list \<Rightarrow>
     'e pc list \<times> ('w, 'e) checks_runner \<times> 'w net" where
  "run_schedule st sched = foldl caller_step st sched"

subsection \<open>Customizing\<close>

text \<open>
  \<^verbatim>\<open>xml.sax.parseString\<close> belongs to the Python library: it reads the text and calls the
  handler once for each event, in document order, or raises on a malformed text. It is a
  parameter of the model, giving the events of a text or the exception. The attributes of
  a start tag are the dictionary-like object whose \<^verbatim>\<open>get(key, None)\<close> the handler
  calls. \<^verbatim>\<open>ATCCustomizingXMLHandler\<close> overrides \<^verbatim>\<open>startElement\<close> only; the other
  events reach the empty methods of \<^verbatim>\<open>ContentHandler\<close>. The handler's only state is
  the customizing object that it fills.
\<close>

datatype sax_event =
  StartElement string "string \<rightharpoonup> string"
| EndElement string
| Characters string

record customizing =
  system_check_variant :: "string option"

definition Customizing :: "string option \<Rightarrow> customizing" where
  "Customizing v = \<lparr>system_check_variant = v\<rparr>"

definition startElement :: "customizing \<Rightarrow> string \<Rightarrow> (string \<rightharpoonup> string) \<Rightarrow> customizing" where
  "startElement cust name attrs =
     (if name = ''property'' \<and> attrs ''name'' = Some ''systemCheckVariant''
      then cust\<lparr>system_check_variant := attrs ''value''\<rparr> else cust)"

fun handle_event :: "customizing \<Rightarrow> sax_event \<Rightarrow> customizing" where
  "handle_event cust (StartElement name attrs) = startElement cust name attrs"
| "handle_event cust (EndElement name) = cust"
| "handle_event cust (Characters s) = cust"

definition customizing_request :: request where
  "customizing_request =
     \<lparr>http_method = ''GET'', path = ''atc/customizing'', params = [],
      accept = Some (AcceptList
        [''application/xml'', ''application/vnd.sap.atc.customizing-v1+xml'']),
      content_type = None, body = None\<rparr>"

text \<open>
  The debug message that \<^verbatim>\<open>fetch_customizing\<close> logs does not reach its result and is
  left out. When the parser raises, the customizing object filled so far is dropped with
  the frame of the function.
\<close>

definition fetch_customizing ::
  "(string \<Rightarrow> 'e + sax_event list) \<Rightarrow> ('w, 'e) connection \<Rightarrow> 'w net \<Rightarrow>
     ('e + customizing) \<times> 'w net" where
  "fetch_customizing parseString conn n =
     (case execute conn customizing_request n of
        (Inl e, n') \<Rightarrow> (Inl e, n')
      | (Inr resp, n') \<Rightarrow>
          (case parseString (resp_text resp) of
             Inl e \<Rightarrow> (Inl e, n')
           | Inr evs \<Rightarrow> (Inr (foldl handle_event (Customizing None) evs), n')))"

text \<open>The start tags the handler reacts to, and the attribute of an event.\<close>

fun variant_property :: "sax_event \<Rightarrow> bool" where
  "variant_property (StartElement name attrs) =
     (name = ''property'' \<and> attrs ''name'' = Some ''systemCheckVariant'')"
| "variant_property (EndElement name) = False"
| "variant_property (Characters s) = False"

fun attribute :: "sax_event \<Rightarrow> string \<Rightarrow> string option" where
  "attribute (StartElement name attrs) k = attrs k"
| "attribute (EndElement name) k = None"
| "attribute (Characters s) k = None"

subsection \<open>The marshalling engine\<close>

text \<open>
  The classes of atc.py are declared with \<^verbatim>\<open>XMLNamespace\<close>, \<^verbatim>\<open>ADTObjectType\<close>,
  \<^verbatim>\<open>XmlNodeAttributeProperty\<close>, \<^verbatim>\<open>xml_text_node_property\<close>, \<^verbatim>\<open>XmlNodeProperty\<close>,
  \<^verbatim>\<open>xml_element\<close> and \<^verbatim>\<open>XmlContainer.define\<close>, and are written and read by
  \<^verbatim>\<open>Marshal\<close>. These belong to sap/adt/objects.py, sap/adt/annotations.py and
  sap/adt/marshalling.py. The definitions of this subsection follow the specification of
  the engine (its sections 3, 4.3 to 4.5 and 7); the declarations of the kinds, further
  down, follow atc.py.
\<close>

text \<open>
  Modelled from the spec: the documents that \<^verbatim>\<open>Marshal\<close> writes and reads. A document
  is modelled by its tree of elements. The text of a document and the tokenizer are
  outside the engine: the events the tokenizer hands to the engine for a document are the
  traversal of the tree.
\<close>

datatype xml = Elem string "(string \<times> string) list" "xml list" | Text string

fun events :: "xml \<Rightarrow> sax_event list" where
  "events (Elem name attrs children) =
     StartElement name (map_of attrs) # concat (map events children) @ [EndElement name]"
| "events (Text s) = [Characters s]"

text \<open>
  Modelled from the spec: the namespace of \<^verbatim>\<open>XMLNamespace(prefix, uri)\<close> and the object
  type descriptor of \<^verbatim>\<open>ADTObjectType(code, basepath, xmlnamespace, mimetype, typeuris,
  xmlname)\<close>, which the spec gives as namespace prefix, namespace URI, content type and
  root element name (atc.py passes \<open>None\<close> for the three other arguments). The root
  element is the namespace-qualified name prefix:name.
\<close>

record xml_namespace =
  ns_prefix :: string
  ns_uri :: string

record object_type =
  xmlnamespace :: xml_namespace
  mimetype :: string
  xmlname :: string

definition xmlelement :: "object_type \<Rightarrow> string" where
  "xmlelement t = ns_prefix (xmlnamespace t) @ '':'' @ xmlname t"

text \<open>
  Modelled from the spec: the ordered bindings of a kind, in declaration order. A binding
  has a target field and a qualified name and is an attribute, a text node or a child
  element; a child element has the kind its factory constructs. An attribute binding may
  declare the decimal scalar type; otherwise values are text. A container type is built by
  \<^verbatim>\<open>define(element_name, element_kind)\<close>. A child element whose factory is a container
  type is the wrapped style of the spec's element container, the only style that atc.py
  declares; the unwrapped style is not modelled.
\<close>

datatype scalar_type = TextT | DecimalT

datatype kind =
  ObjectKind "object_type option" "binding list"
| ContainerKind string kind
and binding =
  Attribute string string scalar_type
| TextNode string string
| Element string string kind

text \<open>
  Modelled from the spec: a bound object instance has a slot for each binding, holding a
  scalar (a string or a number), a nested instance or a container, the ordered sequence of
  the instances of one kind; a slot that is not set is not in the list.
\<close>

datatype slot =
  Str string
| Number int
| Nested "(string \<times> slot) list"
| Container "(string \<times> slot) list list"

type_synonym bound_object = "(string \<times> slot) list"

fun set_field :: "string \<Rightarrow> slot \<Rightarrow> bound_object \<Rightarrow> bound_object" where
  "set_field f v [] = [(f, v)]"
| "set_field f v ((g, w) # r) = (if g = f then (f, v) # r else (g, w) # set_field f v r)"

definition get_field :: "bound_object \<Rightarrow> string \<Rightarrow> slot option" where
  "get_field inst f = map_of inst f"

text \<open>
  Modelled from the spec: the fixed, locale-independent decimal format of numbers: an
  optional minus sign and the decimal digits, without leading zeros when written.
\<close>

definition digit_char :: "nat \<Rightarrow> char" where
  "digit_char d = ''0123456789'' ! d"

definition digit_table :: "(char \<times> nat) list" where
  "digit_table =
     [(CHR ''0'', 0), (CHR ''1'', 1), (CHR ''2'', 2), (CHR ''3'', 3), (CHR ''4'', 4),
      (CHR ''5'', 5), (CHR ''6'', 6), (CHR ''7'', 7), (CHR ''8'', 8), (CHR ''9'', 9)]"

definition digit_value :: "char \<Rightarrow> nat option" where
  "digit_value c = map_of digit_table c"

function digits :: "nat \<Rightarrow> string" where
  "digits n = (if n < 10 then [digit_char n] else digits (n div 10) @ [digit_char (n mod 10)])"
  by pat_completeness auto
termination
  by (relation "measure id") auto

definition show_decimal :: "int \<Rightarrow> string" where
  "show_decimal n = (if n < 0 then CHR ''-'' # digits (nat (- n)) else digits (nat n))"

fun parse_digits :: "nat \<Rightarrow> string \<Rightarrow> nat option" where
  "parse_digits acc [] = Some acc"
| "parse_digits acc (c # cs) =
     (case digit_value c of None \<Rightarrow> None | Some d \<Rightarrow> parse_digits (10 * acc + d) cs)"

fun parse_decimal :: "string \<Rightarrow> int option" where
  "parse_decimal [] = None"
| "parse_decimal (c # cs) =
     (if c = CHR ''-''
      then (if cs = [] then None else map_option (\<lambda>n. - int n) (parse_digits 0 cs))
      else map_option int (parse_digits 0 (c # cs)))"

fun stringify :: "slot \<Rightarrow> string option" where
  "stringify (Str s) = Some s"
| "stringify (Number n) = Some (show_decimal n)"
| "stringify (Nested inst) = None"
| "stringify (Container insts) = None"

fun scalar_of :: "scalar_type \<Rightarrow> string \<Rightarrow> slot option" where
  "scalar_of TextT s = Some (Str s)"
| "scalar_of DecimalT s = map_option Number (parse_decimal s)"

text \<open>
  Modelled from the spec: serialization. The bindings are emitted in declaration order:
  attribute bindings as attributes of the element being written, a slot that is not set
  giving no attribute; text nodes and child elements as children. An element written for
  an instance of a kind with a descriptor declares the namespace of the descriptor, so that
  the document is well-formed. The entries of a container are siblings under the name the
  container type repeats, inside the element named by the binding. The spec does not say
  what is written for a text node or child element whose slot is not set, or for a slot
  whose value does not fit the binding: nothing is written.
\<close>

fun ns_declaration :: "object_type option \<Rightarrow> (string \<times> string) list" where
  "ns_declaration None = []"
| "ns_declaration (Some t) = [(''xmlns:'' @ ns_prefix (xmlnamespace t), ns_uri (xmlnamespace t))]"

fun emit_attributes :: "binding list \<Rightarrow> bound_object \<Rightarrow> (string \<times> string) list" where
  "emit_attributes [] inst = []"
| "emit_attributes (Attribute f q ty # bs) inst =
     (case get_field inst f of
        None \<Rightarrow> []
      | Some v \<Rightarrow> (case stringify v of None \<Rightarrow> [] | Some s \<Rightarrow> [(q, s)])) @
     emit_attributes bs inst"
| "emit_attributes (TextNode f q # bs) inst = emit_attributes bs inst"
| "emit_attributes (Element f q k # bs) inst = emit_attributes bs inst"

fun emit_children :: "binding list \<Rightarrow> bound_object \<Rightarrow> xml list"
  and emit_element :: "string \<Rightarrow> kind \<Rightarrow> slot \<Rightarrow> xml list" where
  "emit_children [] inst = []"
| "emit_children (Attribute f q ty # bs) inst = emit_children bs inst"
| "emit_children (TextNode f q # bs) inst =
     (case get_field inst f of
        None \<Rightarrow> []
      | Some v \<Rightarrow> (case stringify v of None \<Rightarrow> [] | Some s \<Rightarrow> [Elem q [] [Text s]])) @
     emit_children bs inst"
| "emit_children (Element f q k # bs) inst =
     (case get_field inst f of None \<Rightarrow> [] | Some v \<Rightarrow> emit_element q k v) @
     emit_children bs inst"
| "emit_element q (ObjectKind d bs) (Nested inst) =
     [Elem q (ns_declaration d @ emit_attributes bs inst) (emit_children bs inst)]"
| "emit_element q (ContainerKind en ek) (Container insts) =
     [Elem q [] (concat (map (\<lambda>i. emit_element en ek (Nested i)) insts))]"
| "emit_element q k v = []"

datatype marshal_error = MissingObjectType | ParseError

text \<open>
  Modelled from the spec: \<^verbatim>\<open>serialize(instance)\<close> resolves the descriptor of the kind of
  the instance for the root element and raises a structural error when there is none.
\<close>

fun Marshal_serialize :: "kind \<Rightarrow> bound_object \<Rightarrow> marshal_error + xml" where
  "Marshal_serialize (ObjectKind (Some t) bs) inst =
     Inr (Elem (xmlelement t) (ns_declaration (Some t) @ emit_attributes bs inst)
            (emit_children bs inst))"
| "Marshal_serialize (ObjectKind None bs) inst = Inl MissingObjectType"
| "Marshal_serialize (ContainerKind en ek) inst = Inl MissingObjectType"

text \<open>
  Modelled from the spec: deserialization keeps a stack of frames, one for each open
  element: the instance or the container under construction, a text node with its pending
  text, or a frame that skips an element no binding matches. An instance or container
  frame knows where it goes when its element ends: into a field of the frame below, or to
  the end of the container below; the frame of the root goes nowhere. An instance frame
  also knows which text nodes it has met, since a text-node binding captures the first
  child of its name.
\<close>

datatype target = Root | Field string | Item

datatype frame =
  ObjectFrame "binding list" bound_object "string list" target
| ContainerFrame string kind "bound_object list" target
| TextFrame string string
| SkipFrame

fun find_binding :: "binding list \<Rightarrow> string \<Rightarrow> binding option" where
  "find_binding [] name = None"
| "find_binding (Attribute f q ty # bs) name = find_binding bs name"
| "find_binding (TextNode f q # bs) name =
     (if q = name then Some (TextNode f q) else find_binding bs name)"
| "find_binding (Element f q k # bs) name =
     (if q = name then Some (Element f q k) else find_binding bs name)"

text \<open>
  Modelled from the spec: the attribute bindings of \<^verbatim>\<open>Marshal.deserialize\<close>. An
  attribute binding reads its attribute by qualified name; a missing attribute leaves
  the field as it is, and attributes without a binding are never looked at. The spec does
  not say what a decimal binding does with a text that is no number: the field is left.
\<close>

fun read_attributes :: "binding list \<Rightarrow> (string \<rightharpoonup> string) \<Rightarrow> bound_object \<Rightarrow> bound_object" where
  "read_attributes [] attrs inst = inst"
| "read_attributes (Attribute f q ty # bs) attrs inst =
     read_attributes bs attrs
       (case attrs q of
          None \<Rightarrow> inst
        | Some s \<Rightarrow> (case scalar_of ty s of None \<Rightarrow> inst | Some v \<Rightarrow> set_field f v inst))"
| "read_attributes (TextNode f q # bs) attrs inst = read_attributes bs attrs inst"
| "read_attributes (Element f q k # bs) attrs inst = read_attributes bs attrs inst"

text \<open>
  Modelled from the spec: the frames of \<^verbatim>\<open>Marshal.deserialize\<close> at the events. The
  factory of a kind constructs an instance with no slot set, or an empty container, when
  the element of the binding starts. An element that starts is matched against the
  bindings of the frame on top, or against the name a container repeats; characters go to
  the pending text of a text node; an element that ends commits its frame to the frame
  below: a text node its text, a child element its instance or its container, an entry of
  a container itself, at the end of the container.
\<close>

fun new_frame :: "kind \<Rightarrow> (string \<rightharpoonup> string) \<Rightarrow> target \<Rightarrow> frame" where
  "new_frame (ObjectKind d bs) attrs tg = ObjectFrame bs (read_attributes bs attrs []) [] tg"
| "new_frame (ContainerKind en ek) attrs tg = ContainerFrame en ek [] tg"

fun open_child :: "frame \<Rightarrow> string \<Rightarrow> (string \<rightharpoonup> string) \<Rightarrow> frame \<times> frame" where
  "open_child (ObjectFrame bs inst seen tg) name attrs =
     (case find_binding bs name of
        Some (TextNode f q) \<Rightarrow>
          (if f \<in> set seen then (ObjectFrame bs inst seen tg, SkipFrame)
           else (ObjectFrame bs inst (f # seen) tg, TextFrame f []))
      | Some (Element f q k) \<Rightarrow> (ObjectFrame bs inst seen tg, new_frame k attrs (Field f))
      | Some (Attribute f q ty) \<Rightarrow> (ObjectFrame bs inst seen tg, SkipFrame)
      | None \<Rightarrow> (ObjectFrame bs inst seen tg, SkipFrame))"
| "open_child (ContainerFrame en ek items tg) name attrs =
     (ContainerFrame en ek items tg, if name = en then new_frame ek attrs Item else SkipFrame)"
| "open_child (TextFrame f buf) name attrs = (TextFrame f buf, SkipFrame)"
| "open_child SkipFrame name attrs = (SkipFrame, SkipFrame)"

fun commit :: "frame \<Rightarrow> frame \<Rightarrow> frame" where
  "commit (TextFrame f buf) (ObjectFrame bs inst seen tg) =
     ObjectFrame bs (set_field f (Str buf) inst) seen tg"
| "commit (ObjectFrame bs' inst' seen' (Field f)) (ObjectFrame bs inst seen tg) =
     ObjectFrame bs (set_field f (Nested inst') inst) seen tg"
| "commit (ContainerFrame en' ek' items' (Field f)) (ObjectFrame bs inst seen tg) =
     ObjectFrame bs (set_field f (Container items') inst) seen tg"
| "commit (ObjectFrame bs' inst' seen' Item) (ContainerFrame en ek items tg) =
     ContainerFrame en ek (items @ [inst']) tg"
| "commit c p = p"

fun step :: "frame list \<Rightarrow> sax_event \<Rightarrow> frame list" where
  "step (p # fs) (StartElement name attrs) =
     (case open_child p name attrs of (p', c) \<Rightarrow> c # p' # fs)"
| "step [] (StartElement name attrs) = []"
| "step (TextFrame f buf # fs) (Characters s) = TextFrame f (buf @ s) # fs"
| "step fs (Characters s) = fs"
| "step (c # p # fs) (EndElement name) = commit c p # fs"
| "step fs (EndElement name) = fs"

text \<open>
  Modelled from the spec: \<^verbatim>\<open>deserialize(document, target_instance)\<close> fills the target,
  an instance of the given kind, from the events of the document. The first event opens
  the root element, whose attributes go to the target; when the events are those of a
  document, the stack ends as the frame of the root alone. Events that are not those of a
  document stand for a text on which the tokenizer raises.
\<close>

fun Marshal_deserialize :: "kind \<Rightarrow> sax_event list \<Rightarrow> bound_object \<Rightarrow> marshal_error + bound_object" where
  "Marshal_deserialize (ObjectKind d bs) (StartElement name attrs # evs) tgt =
     (case foldl step [ObjectFrame bs (read_attributes bs attrs tgt) [] Root] evs of
        [ObjectFrame bs' inst seen Root] \<Rightarrow> Inr inst
      | _ \<Rightarrow> Inl ParseError)"
| "Marshal_deserialize k evs tgt = Inl ParseError"

text \<open>
  Modelled from the spec: the same reading of \<^verbatim>\<open>Marshal.deserialize\<close> as a descent
  into the tree: what an element, with all that is inside it, does to the frame of the
  element that holds it. The stack of frames is proved to do the same.
\<close>

fun absorb :: "frame \<Rightarrow> xml \<Rightarrow> frame"
  and absorb_all :: "frame \<Rightarrow> xml list \<Rightarrow> frame" where
  "absorb p (Elem name attrs children) =
     (case open_child p name (map_of attrs) of (p', c) \<Rightarrow> commit (absorb_all c children) p')"
| "absorb p (Text s) = (case p of TextFrame f buf \<Rightarrow> TextFrame f (buf @ s) | _ \<Rightarrow> p)"
| "absorb_all p [] = p"
| "absorb_all p (t # ts) = absorb_all (absorb p t) ts"

text \<open>The field, if any, that a frame is committed to when its element ends.\<close>

fun field_of :: "target \<Rightarrow> string option" where
  "field_of Root = None"
| "field_of (Field f) = Some f"
| "field_of Item = None"

fun goes_to :: "frame \<Rightarrow> string option" where
  "goes_to (ObjectFrame bs inst seen tg) = field_of tg"
| "goes_to (ContainerFrame en ek items tg) = field_of tg"
| "goes_to (TextFrame f buf) = Some f"
| "goes_to SkipFrame = None"

subsection \<open>The kinds that atc.py declares\<close>

definition XMLNS_ATC :: xml_namespace where
  "XMLNS_ATC = \<lparr>ns_prefix = ''atc'', ns_uri = ''http://www.sap.com/adt/atc''\<rparr>"

definition XMLNS_ATCINFO :: xml_namespace where
  "XMLNS_ATCINFO = \<lparr>ns_prefix = ''atcinfo'', ns_uri = ''http://www.sap.com/adt/atc/info''\<rparr>"

definition XMLNS_ATCWORKLIST :: xml_namespace where
  "XMLNS_ATCWORKLIST =
     \<lparr>ns_prefix = ''atcworklist'', ns_uri = ''http://www.sap.com/adt/atc/worklist''\<rparr>"

text \<open>
  \<^verbatim>\<open>RunRequest\<close>: the object type, then \<^verbatim>\<open>max_verdicts\<close>, an attribute named
  maximumVerdicts, then \<^verbatim>\<open>sets\<close>, a child element named objectSets. The attribute
  is declared with \<^verbatim>\<open>XmlNodeAttributeProperty\<close> and its name only, as every
  attribute of atc.py is: a text attribute. The kind of the object sets is a class of
  sap/adt/objects.py and is a parameter.
\<close>

definition RunRequest_objtype :: object_type where
  "RunRequest_objtype = \<lparr>xmlnamespace = XMLNS_ATC, mimetype = ''application/xml'', xmlname = ''run''\<rparr>"

definition RunRequest_kind :: "kind \<Rightarrow> kind" where
  "RunRequest_kind sets_kind =
     ObjectKind (Some RunRequest_objtype)
       [Attribute ''max_verdicts'' ''maximumVerdicts'' TextT,
        Element ''sets'' ''objectSets'' sets_kind]"

text \<open>The instance that \<^verbatim>\<open>RunRequest.__init__\<close> leaves: the sets, then the verdicts.\<close>

definition run_request_instance :: "slot run_request \<Rightarrow> bound_object" where
  "run_request_instance rq =
     set_field ''max_verdicts'' (Number (max_verdicts rq)) (set_field ''sets'' (sets rq) [])"

text \<open>
  \<^verbatim>\<open>ATCInfo\<close>, with two text nodes, \<^verbatim>\<open>ATCInfoList\<close>, the container of the elements
  named by \<^verbatim>\<open>ATCInfo.objtype.xmlelement\<close>, and \<^verbatim>\<open>RunResponse\<close>, with two text nodes
  and the child element atcworklist:infos whose factory is the container.
\<close>

definition ATCInfo_objtype :: object_type where
  "ATCInfo_objtype =
     \<lparr>xmlnamespace = XMLNS_ATCINFO, mimetype = ''application/xml'', xmlname = ''info''\<rparr>"

definition ATCInfo_kind :: kind where
  "ATCInfo_kind =
     ObjectKind (Some ATCInfo_objtype)
       [TextNode ''typ'' ''atcinfo:type'', TextNode ''description'' ''atcinfo:description'']"

definition ATCInfoList :: kind where
  "ATCInfoList = ContainerKind (xmlelement ATCInfo_objtype) ATCInfo_kind"

definition RunResponse_objtype :: object_type where
  "RunResponse_objtype =
     \<lparr>xmlnamespace = XMLNS_ATCWORKLIST, mimetype = ''application/xml'',
      xmlname = ''worklistRun''\<rparr>"

definition RunResponse_kind :: kind where
  "RunResponse_kind =
     ObjectKind (Some RunResponse_objtype)
       [TextNode ''worklist_id'' ''atcworklist:worklistId'',
        TextNode ''timestamp'' ''atcworklist:worklistTimestamp'',
        Element ''infos'' ''atcworklist:infos'' ATCInfoList]"


definition response_without_infos :: xml where
  "response_without_infos =
     Elem ''atcworklist:worklistRun''
       [(''xmlns:atcworklist'', ''http://www.sap.com/adt/atc/worklist'')]
       [Elem ''atcworklist:worklistId'' [] [Text ''4711''],
        Elem ''atcworklist:worklistTimestamp'' [] [Text ''20230101000000'']]"


subsection \<open>Sample collaborators\<close>

text \<open>
  A connection that answers its first \<open>k\<close> requests with the text 4711 and raises from
  then on (its world counts the requests it has seen), a marshaller that sends the object
  sets as they are and takes every text as it is, and a parser for one sample text.
\<close>

definition conn_upto :: "nat \<Rightarrow> (nat, string) connection" where
  "conn_upto k req w =
     (if w < k then (Inr \<lparr>resp_text = ''4711''\<rparr>, Suc w) else (Inl ''ConnectionError'', Suc w))"

definition demo_marshal :: "(string, string, string, string) marshal" where
  "demo_marshal =
     \<lparr>serialize = (\<lambda>rq. Inr (sets rq)),
      deserialize_run_response = (\<lambda>t. Inr t),
      deserialize_worklist = (\<lambda>t. Inr t)\<rparr>"

definition net0 :: "nat net" where
  "net0 = \<lparr>world = 0, trace = []\<rparr>"

definition demo_events :: "sax_event list" where
  "demo_events =
     [StartElement ''customizing'' Map.empty,
      StartElement ''property'' [''name'' \<mapsto> ''systemCheckVariant'', ''value'' \<mapsto> ''OLD''],
      EndElement ''property'',
      StartElement ''property'' [''name'' \<mapsto> ''other'', ''value'' \<mapsto> ''X''],
      EndElement ''property'',
      StartElement ''property'' [''name'' \<mapsto> ''systemCheckVariant'', ''value'' \<mapsto> ''NEW''],
      EndElement ''property'',
      EndElement ''customizing'']"

definition demo_parse :: "string \<Rightarrow> string + sax_event list" where
  "demo_parse t = (if t = ''4711'' then Inr demo_events else Inl ''SAXParseException'')"

text \<open>A connection that answers the request number \<open>k\<close> with \<open>k\<close> letters I.\<close>

definition conn_fresh :: "(nat, string) connection" where
  "conn_fresh req w = (Inr \<lparr>resp_text = replicate (Suc w) CHR ''I''\<rparr>, Suc w)"

section \<open>Properties of the runner\<close>

subsection \<open>What one call does to the runner and to the trace\<close>

lemma trace_execute:
  "execute conn req n = (r, n') \<Longrightarrow> trace n' = trace n @ [req]"
  by (auto simp: execute_def split: prod.splits)

lemma get_id_cached: "worklist_id self = Some i \<Longrightarrow> get_id self n = (Inr i, self, n)"
  by (simp add: get_id_def)

lemma get_id_Inr:
  "get_id self n = (Inr i, self', n') \<Longrightarrow>
     worklist_id self' = Some i \<and> connection self' = connection self \<and> variant self' = variant self"
  by (auto simp: get_id_def split: option.splits prod.splits sum.splits)

lemma get_id_fresh_Inr:
  "worklist_id self = None \<Longrightarrow> get_id self n = (Inr i, self', n') \<Longrightarrow>
     trace n' = trace n @ [worklists_request (variant self)]"
  by (auto simp: get_id_def split: option.splits prod.splits sum.splits dest: trace_execute)

lemma get_id_frame:
  "get_id self n = (r, self', n') \<Longrightarrow>
     connection self' = connection self \<and> variant self' = variant self \<and>
     (\<forall>i. worklist_id self = Some i \<longrightarrow> worklist_id self' = Some i)"
  by (auto simp: get_id_def split: option.splits prod.splits sum.splits)

lemma run_for_frame:
  "run_for M self s mv n = (r, self', n') \<Longrightarrow>
     connection self' = connection self \<and> variant self' = variant self \<and>
     (\<forall>i. worklist_id self = Some i \<longrightarrow> worklist_id self' = Some i)"
  unfolding run_for_def
  by (auto split: sum.splits prod.splits dest!: get_id_frame)

lemma run_for_Inr:
  assumes "run_for M self s mv n = (Inr res, self', n')"
  shows "\<exists>b i n1. serialize M (RunRequest s mv) = Inr b \<and> get_id self n = (Inr i, self', n1) \<and>
           trace n' = trace n1 @ [runs_request i b, worklist_request i]"
  using assms unfolding run_for_def
  by (auto split: sum.splits prod.splits dest!: trace_execute)

lemma call_step_frame:
  "call_step M c (self, n) = (self', n') \<Longrightarrow>
     connection self' = connection self \<and> variant self' = variant self \<and>
     (\<forall>i. worklist_id self = Some i \<longrightarrow> worklist_id self' = Some i)"
  by (cases c) (auto simp: run_for_call_def split: prod.splits dest!: get_id_frame run_for_frame)

text \<open>Evaluation of the sample connection.\<close>

lemma execute_conn_upto:
  "execute (conn_upto k) req \<lparr>world = w, trace = t\<rparr> =
     (if w < k then Inr \<lparr>resp_text = ''4711''\<rparr> else Inl ''ConnectionError'',
      \<lparr>world = Suc w, trace = t @ [req]\<rparr>)"
  by (simp add: execute_def conn_upto_def)

lemma get_id_conn_upto:
  "get_id \<lparr>connection = conn_upto k, variant = v, worklist_id = None\<rparr> \<lparr>world = w, trace = t\<rparr> =
     (if w < k
      then (Inr ''4711'', \<lparr>connection = conn_upto k, variant = v, worklist_id = Some ''4711''\<rparr>,
            \<lparr>world = Suc w, trace = t @ [worklists_request v]\<rparr>)
      else (Inl ''ConnectionError'', \<lparr>connection = conn_upto k, variant = v, worklist_id = None\<rparr>,
            \<lparr>world = Suc w, trace = t @ [worklists_request v]\<rparr>))"
  by (simp add: get_id_def execute_conn_upto)

lemma run_for_conn_upto:
  "worklist_id self = Some i \<Longrightarrow> connection self = conn_upto k \<Longrightarrow>
   run_for demo_marshal self s mv \<lparr>world = w, trace = t\<rparr> =
     (if Suc w < k
      then (Inr \<lparr>run_response = ''4711'', worklist = ''4711''\<rparr>, self,
            \<lparr>world = Suc (Suc w), trace = t @ [runs_request i s, worklist_request i]\<rparr>)
      else if w < k
      then (Inl ''ConnectionError'', self,
            \<lparr>world = Suc (Suc w), trace = t @ [runs_request i s, worklist_request i]\<rparr>)
      else (Inl ''ConnectionError'', self, \<lparr>world = Suc w, trace = t @ [runs_request i s]\<rparr>))"
  by (simp add: run_for_def get_id_cached demo_marshal_def RunRequest_def execute_conn_upto)

lemma run_for_fresh_conn_upto:
  "3 \<le> k \<Longrightarrow>
   run_for demo_marshal \<lparr>connection = conn_upto k, variant = v, worklist_id = None\<rparr> s mv net0 =
     (Inr \<lparr>run_response = ''4711'', worklist = ''4711''\<rparr>,
      \<lparr>connection = conn_upto k, variant = v, worklist_id = Some ''4711''\<rparr>,
      \<lparr>world = 3, trace = [worklists_request v, runs_request ''4711'' s, worklist_request ''4711'']\<rparr>)"
  by (simp add: run_for_def get_id_conn_upto demo_marshal_def RunRequest_def execute_conn_upto
      net0_def numeral_3_eq_3)

subsection \<open>The identifier is created once\<close>

text \<open>
  C1. On a runner that holds no identifier yet: when \<^verbatim>\<open>_get_id\<close> returns \<open>i\<close>, a
  second call returns \<open>i\<close> again and leaves runner and net as they are, so that the two
  calls together made exactly one request, the POST of atc/worklists that creates the work
  list. When \<^verbatim>\<open>run_for\<close> is called twice and returns both times, the two calls
  together made exactly five requests: the one POST of atc/worklists, then for each call
  the POST of atc/runs and the GET of atc/worklists/\<open>j\<close>, where the parameter worklistId
  of both POSTs and the path of both GETs carry the one identifier \<open>j\<close> that the runner
  holds after either call, and each POST has the serialized request of its call as body.
\<close>

theorem worklist_id_created_once:
  "(worklist_id self = None \<and> get_id self n = (Inr i, self1, n1) \<longrightarrow>
      get_id self1 n1 = (Inr i, self1, n1) \<and>
      trace n1 = trace n @
        [\<lparr>http_method = ''POST'', path = ''atc/worklists'',
          params = [(''checkVariant'', variant self)],
          accept = Some (AcceptOne ''text/plain''), content_type = None, body = None\<rparr>]) \<and>
   (worklist_id self = None \<and> run_for M self s mv n = (Inr res, self1, n1) \<and>
    run_for M self1 s' mv' n1 = (Inr res', self2, n2) \<longrightarrow>
      (\<exists>j b b'. worklist_id self1 = Some j \<and> worklist_id self2 = Some j \<and>
         serialize M \<lparr>sets = s, max_verdicts = mv\<rparr> = Inr b \<and>
         serialize M \<lparr>sets = s', max_verdicts = mv'\<rparr> = Inr b' \<and>
         trace n2 = trace n @
           [\<lparr>http_method = ''POST'', path = ''atc/worklists'',
             params = [(''checkVariant'', variant self)],
             accept = Some (AcceptOne ''text/plain''), content_type = None, body = None\<rparr>,
            \<lparr>http_method = ''POST'', path = ''atc/runs'', params = [(''worklistId'', j)],
             accept = Some (AcceptOne ''application/xml''),
             content_type = Some ''application/xml'', body = Some b\<rparr>,
            \<lparr>http_method = ''GET'', path = ''atc/worklists/'' @ j,
             params = [(''includeExemptedFindings'', ''false'')],
             accept = Some (AcceptOne ''application/atc.worklist.v1+xml''),
             content_type = None, body = None\<rparr>,
            \<lparr>http_method = ''POST'', path = ''atc/runs'', params = [(''worklistId'', j)],
             accept = Some (AcceptOne ''application/xml''),
             content_type = Some ''application/xml'', body = Some b'\<rparr>,
            \<lparr>http_method = ''GET'', path = ''atc/worklists/'' @ j,
             params = [(''includeExemptedFindings'', ''false'')],
             accept = Some (AcceptOne ''application/atc.worklist.v1+xml''),
             content_type = None, body = None\<rparr>]))"
proof (intro conjI impI)
  assume a: "worklist_id self = None \<and> get_id self n = (Inr i, self1, n1)"
  then have "worklist_id self1 = Some i" by (auto dest: get_id_Inr)
  then show "get_id self1 n1 = (Inr i, self1, n1)" by (rule get_id_cached)
  from a have "trace n1 = trace n @ [worklists_request (variant self)]"
    by (auto dest: get_id_fresh_Inr)
  then show "trace n1 = trace n @
        [\<lparr>http_method = ''POST'', path = ''atc/worklists'',
          params = [(''checkVariant'', variant self)],
          accept = Some (AcceptOne ''text/plain''), content_type = None, body = None\<rparr>]"
    by (simp add: worklists_request_def)
next
  assume a: "worklist_id self = None \<and> run_for M self s mv n = (Inr res, self1, n1) \<and>
    run_for M self1 s' mv' n1 = (Inr res', self2, n2)"
  then obtain b j m1 where 1: "get_id self n = (Inr j, self1, m1)"
    and s1: "serialize M (RunRequest s mv) = Inr b"
    and t1: "trace n1 = trace m1 @ [runs_request j b, worklist_request j]"
    by (auto dest!: run_for_Inr)
  from a obtain b' j' m2 where 2: "get_id self1 n1 = (Inr j', self2, m2)"
    and s2: "serialize M (RunRequest s' mv') = Inr b'"
    and t2: "trace n2 = trace m2 @ [runs_request j' b', worklist_request j']"
    by (auto dest!: run_for_Inr)
  from 1 have c: "worklist_id self1 = Some j" by (auto dest: get_id_Inr)
  from 2 c have e: "j' = j" "self2 = self1" "m2 = n1" by (simp_all add: get_id_cached)
  from 1 a have t0: "trace m1 = trace n @ [worklists_request (variant self)]"
    by (auto dest: get_id_fresh_Inr)
  have "worklist_id self1 = Some j \<and> worklist_id self2 = Some j \<and>
         serialize M \<lparr>sets = s, max_verdicts = mv\<rparr> = Inr b \<and>
         serialize M \<lparr>sets = s', max_verdicts = mv'\<rparr> = Inr b' \<and>
         trace n2 = trace n @
           [\<lparr>http_method = ''POST'', path = ''atc/worklists'',
             params = [(''checkVariant'', variant self)],
             accept = Some (AcceptOne ''text/plain''), content_type = None, body = None\<rparr>,
            \<lparr>http_method = ''POST'', path = ''atc/runs'', params = [(''worklistId'', j)],
             accept = Some (AcceptOne ''application/xml''),
             content_type = Some ''application/xml'', body = Some b\<rparr>,
            \<lparr>http_method = ''GET'', path = ''atc/worklists/'' @ j,
             params = [(''includeExemptedFindings'', ''false'')],
             accept = Some (AcceptOne ''application/atc.worklist.v1+xml''),
             content_type = None, body = None\<rparr>,
            \<lparr>http_method = ''POST'', path = ''atc/runs'', params = [(''worklistId'', j)],
             accept = Some (AcceptOne ''application/xml''),
             content_type = Some ''application/xml'', body = Some b'\<rparr>,
            \<lparr>http_method = ''GET'', path = ''atc/worklists/'' @ j,
             params = [(''includeExemptedFindings'', ''false'')],
             accept = Some (AcceptOne ''application/atc.worklist.v1+xml''),
             content_type = None, body = None\<rparr>]"
    using c e t0 t1 t2 s1 s2
    by (simp add: worklists_request_def runs_request_def worklist_request_def RunRequest_def)
  then show "\<exists>j b b'. worklist_id self1 = Some j \<and> worklist_id self2 = Some j \<and>
         serialize M \<lparr>sets = s, max_verdicts = mv\<rparr> = Inr b \<and>
         serialize M \<lparr>sets = s', max_verdicts = mv'\<rparr> = Inr b' \<and>
         trace n2 = trace n @
           [\<lparr>http_method = ''POST'', path = ''atc/worklists'',
             params = [(''checkVariant'', variant self)],
             accept = Some (AcceptOne ''text/plain''), content_type = None, body = None\<rparr>,
            \<lparr>http_method = ''POST'', path = ''atc/runs'', params = [(''worklistId'', j)],
             accept = Some (AcceptOne ''application/xml''),
             content_type = Some ''application/xml'', body = Some b\<rparr>,
            \<lparr>http_method = ''GET'', path = ''atc/worklists/'' @ j,
             params = [(''includeExemptedFindings'', ''false'')],
             accept = Some (AcceptOne ''application/atc.worklist.v1+xml''),
             content_type = None, body = None\<rparr>,
            \<lparr>http_method = ''POST'', path = ''atc/runs'', params = [(''worklistId'', j)],
             accept = Some (AcceptOne ''application/xml''),
             content_type = Some ''application/xml'', body = Some b'\<rparr>,
            \<lparr>http_method = ''GET'', path = ''atc/worklists/'' @ j,
             params = [(''includeExemptedFindings'', ''false'')],
             accept = Some (AcceptOne ''application/atc.worklist.v1+xml''),
             content_type = None, body = None\<rparr>]"
    by blast
qed

theorem worklist_id_created_once_witness:
  "get_id (ChecksRunner (conn_upto 9) ''V'') net0 =
     (Inr ''4711'', \<lparr>connection = conn_upto 9, variant = ''V'', worklist_id = Some ''4711''\<rparr>,
      \<lparr>world = 1, trace =
        [\<lparr>http_method = ''POST'', path = ''atc/worklists'', params = [(''checkVariant'', ''V'')],
          accept = Some (AcceptOne ''text/plain''), content_type = None, body = None\<rparr>]\<rparr>) \<and>
   get_id \<lparr>connection = conn_upto 9, variant = ''V'', worklist_id = Some ''4711''\<rparr>
      \<lparr>world = 1, trace =
        [\<lparr>http_method = ''POST'', path = ''atc/worklists'', params = [(''checkVariant'', ''V'')],
          accept = Some (AcceptOne ''text/plain''), content_type = None, body = None\<rparr>]\<rparr> =
     (Inr ''4711'', \<lparr>connection = conn_upto 9, variant = ''V'', worklist_id = Some ''4711''\<rparr>,
      \<lparr>world = 1, trace =
        [\<lparr>http_method = ''POST'', path = ''atc/worklists'', params = [(''checkVariant'', ''V'')],
          accept = Some (AcceptOne ''text/plain''), content_type = None, body = None\<rparr>]\<rparr>) \<and>
   (\<exists>res res' self2 n1 n2.
      run_for demo_marshal (ChecksRunner (conn_upto 9) ''V'') ''a'' 100 net0 =
        (Inr res, \<lparr>connection = conn_upto 9, variant = ''V'', worklist_id = Some ''4711''\<rparr>, n1) \<and>
      run_for demo_marshal \<lparr>connection = conn_upto 9, variant = ''V'', worklist_id = Some ''4711''\<rparr>
        ''b'' 7 n1 = (Inr res', self2, n2) \<and>
      worklist_id self2 = Some ''4711'' \<and>
      trace n2 =
        [\<lparr>http_method = ''POST'', path = ''atc/worklists'', params = [(''checkVariant'', ''V'')],
          accept = Some (AcceptOne ''text/plain''), content_type = None, body = None\<rparr>,
         \<lparr>http_method = ''POST'', path = ''atc/runs'', params = [(''worklistId'', ''4711'')],
          accept = Some (AcceptOne ''application/xml''),
          content_type = Some ''application/xml'', body = Some ''a''\<rparr>,
         \<lparr>http_method = ''GET'', path = ''atc/worklists/4711'',
          params = [(''includeExemptedFindings'', ''false'')],
          accept = Some (AcceptOne ''application/atc.worklist.v1+xml''),
          content_type = None, body = None\<rparr>,
         \<lparr>http_method = ''POST'', path = ''atc/runs'', params = [(''worklistId'', ''4711'')],
          accept = Some (AcceptOne ''application/xml''),
          content_type = Some ''application/xml'', body = Some ''b''\<rparr>,
         \<lparr>http_method = ''GET'', path = ''atc/worklists/4711'',
          params = [(''includeExemptedFindings'', ''false'')],
          accept = Some (AcceptOne ''application/atc.worklist.v1+xml''),
          content_type = None, body = None\<rparr>])"
proof -
  let ?r0 = "ChecksRunner (conn_upto 9) ''V''"
  let ?r1 = "\<lparr>connection = conn_upto 9, variant = ''V'', worklist_id = Some ''4711''\<rparr>"
  let ?n1 = "\<lparr>world = 1, trace = [worklists_request ''V'']\<rparr> :: nat net"
  let ?m1 = "\<lparr>world = 3, trace = [worklists_request ''V'', runs_request ''4711'' ''a'',
    worklist_request ''4711'']\<rparr> :: nat net"
  let ?m2 = "\<lparr>world = 5, trace = [worklists_request ''V'', runs_request ''4711'' ''a'',
    worklist_request ''4711'', runs_request ''4711'' ''b'', worklist_request ''4711'']\<rparr> :: nat net"
  let ?res = "\<lparr>run_response = ''4711'', worklist = ''4711''\<rparr>"
  have g: "worklist_id ?r0 = None \<and> get_id ?r0 net0 = (Inr ''4711'', ?r1, ?n1)"
    by (simp add: ChecksRunner_def get_id_conn_upto net0_def)
  have r1: "run_for demo_marshal ?r0 ''a'' 100 net0 = (Inr ?res, ?r1, ?m1)"
    by (simp add: ChecksRunner_def run_for_fresh_conn_upto)
  have r2: "run_for demo_marshal ?r1 ''b'' 7 ?m1 = (Inr ?res, ?r1, ?m2)"
    by (simp add: run_for_conn_upto [where i = "''4711''" and k = 9]
        numeral_3_eq_3 eval_nat_numeral)
  have a: "get_id ?r1 ?n1 = (Inr ''4711'', ?r1, ?n1)"
    by (rule worklist_id_created_once [THEN conjunct1, THEN mp, OF g, THEN conjunct1])
  note b = worklist_id_created_once [THEN conjunct2, THEN mp,
      OF conjI [OF conjunct1 [OF g] conjI [OF r1 r2]]]
  from b have t: "trace ?m2 =
        [\<lparr>http_method = ''POST'', path = ''atc/worklists'', params = [(''checkVariant'', ''V'')],
          accept = Some (AcceptOne ''text/plain''), content_type = None, body = None\<rparr>,
         \<lparr>http_method = ''POST'', path = ''atc/runs'', params = [(''worklistId'', ''4711'')],
          accept = Some (AcceptOne ''application/xml''),
          content_type = Some ''application/xml'', body = Some ''a''\<rparr>,
         \<lparr>http_method = ''GET'', path = ''atc/worklists/4711'',
          params = [(''includeExemptedFindings'', ''false'')],
          accept = Some (AcceptOne ''application/atc.worklist.v1+xml''),
          content_type = None, body = None\<rparr>,
         \<lparr>http_method = ''POST'', path = ''atc/runs'', params = [(''worklistId'', ''4711'')],
          accept = Some (AcceptOne ''application/xml''),
          content_type = Some ''application/xml'', body = Some ''b''\<rparr>,
         \<lparr>http_method = ''GET'', path = ''atc/worklists/4711'',
          params = [(''includeExemptedFindings'', ''false'')],
          accept = Some (AcceptOne ''application/atc.worklist.v1+xml''),
          content_type = None, body = None\<rparr>]"
    by (auto simp: net0_def ChecksRunner_def demo_marshal_def)
  from g a r1 r2 t show ?thesis
    by (auto simp: net0_def ChecksRunner_def worklists_request_def)
qed

subsection \<open>The steps of run_for\<close>

text \<open>
  C2. A call \<^verbatim>\<open>run_for(obj_sets, max_verdicts)\<close>, with 100 for a \<^verbatim>\<open>max_verdicts\<close>
  that is not passed, does the following, one step after the other, and a step that
  raises ends the call with what it raised, before any later step is taken.
  \<^enum> The run request with the verdict bound and the object sets is serialized. When this
    raises, no request has been made and the runner is as it was: \<^verbatim>\<open>_get_id\<close> has not
    been called.
  \<^enum> \<^verbatim>\<open>_get_id\<close> gives the identifier \<open>i\<close>.
  \<^enum> The serialized request is sent by POST to atc/runs with the parameter worklistId
    = \<open>i\<close>.
  \<^enum> The answer is deserialized into the run response. When this raises, the POST is the
    last request made: the results have not been fetched.
  \<^enum> The results are fetched by GET from atc/worklists/\<open>i\<close> with the parameter
    includeExemptedFindings = false.
  \<^enum> The answer is deserialized into the work list.
  \<^enum> The pair of the run response and the work list is returned; to what \<^verbatim>\<open>_get_id\<close>
    did, the call has added exactly the POST and then the GET.
\<close>

theorem run_for_steps:
  "(\<forall>e. serialize M
          \<lparr>sets = obj_sets, max_verdicts = (case mvo of None \<Rightarrow> 100 | Some mv \<Rightarrow> mv)\<rparr> = Inl e \<longrightarrow>
        run_for_call M self obj_sets mvo n = (Inl e, self, n)) \<and>
   (\<forall>b. serialize M
          \<lparr>sets = obj_sets, max_verdicts = (case mvo of None \<Rightarrow> 100 | Some mv \<Rightarrow> mv)\<rparr> = Inr b \<longrightarrow>
      (\<forall>e self1 n1. get_id self n = (Inl e, self1, n1) \<longrightarrow>
         run_for_call M self obj_sets mvo n = (Inl e, self1, n1)) \<and>
      (\<forall>i self1 n1. get_id self n = (Inr i, self1, n1) \<longrightarrow>
         (\<forall>e n2. execute (connection self1)
              \<lparr>http_method = ''POST'', path = ''atc/runs'', params = [(''worklistId'', i)],
               accept = Some (AcceptOne ''application/xml''),
               content_type = Some ''application/xml'', body = Some b\<rparr> n1 = (Inl e, n2) \<longrightarrow>
            run_for_call M self obj_sets mvo n = (Inl e, self1, n2)) \<and>
         (\<forall>resp n2. execute (connection self1)
              \<lparr>http_method = ''POST'', path = ''atc/runs'', params = [(''worklistId'', i)],
               accept = Some (AcceptOne ''application/xml''),
               content_type = Some ''application/xml'', body = Some b\<rparr> n1 = (Inr resp, n2) \<longrightarrow>
            trace n2 = trace n1 @
              [\<lparr>http_method = ''POST'', path = ''atc/runs'', params = [(''worklistId'', i)],
                accept = Some (AcceptOne ''application/xml''),
                content_type = Some ''application/xml'', body = Some b\<rparr>] \<and>
            (\<forall>e. deserialize_run_response M (resp_text resp) = Inl e \<longrightarrow>
               run_for_call M self obj_sets mvo n = (Inl e, self1, n2)) \<and>
            (\<forall>rr. deserialize_run_response M (resp_text resp) = Inr rr \<longrightarrow>
               (\<forall>e n3. execute (connection self1)
                    \<lparr>http_method = ''GET'', path = ''atc/worklists/'' @ i,
                     params = [(''includeExemptedFindings'', ''false'')],
                     accept = Some (AcceptOne ''application/atc.worklist.v1+xml''),
                     content_type = None, body = None\<rparr> n2 = (Inl e, n3) \<longrightarrow>
                  run_for_call M self obj_sets mvo n = (Inl e, self1, n3)) \<and>
               (\<forall>resp' n3. execute (connection self1)
                    \<lparr>http_method = ''GET'', path = ''atc/worklists/'' @ i,
                     params = [(''includeExemptedFindings'', ''false'')],
                     accept = Some (AcceptOne ''application/atc.worklist.v1+xml''),
                     content_type = None, body = None\<rparr> n2 = (Inr resp', n3) \<longrightarrow>
                  trace n3 = trace n1 @
                    [\<lparr>http_method = ''POST'', path = ''atc/runs'', params = [(''worklistId'', i)],
                      accept = Some (AcceptOne ''application/xml''),
                      content_type = Some ''application/xml'', body = Some b\<rparr>,
                     \<lparr>http_method = ''GET'', path = ''atc/worklists/'' @ i,
                      params = [(''includeExemptedFindings'', ''false'')],
                      accept = Some (AcceptOne ''application/atc.worklist.v1+xml''),
                      content_type = None, body = None\<rparr>] \<and>
                  (\<forall>e. deserialize_worklist M (resp_text resp') = Inl e \<longrightarrow>
                     run_for_call M self obj_sets mvo n = (Inl e, self1, n3)) \<and>
                  (\<forall>wl. deserialize_worklist M (resp_text resp') = Inr wl \<longrightarrow>
                     run_for_call M self obj_sets mvo n =
                       (Inr \<lparr>run_response = rr, worklist = wl\<rparr>, self1, n3)))))))"
  by (auto simp: run_for_call_def run_for_def RunRequest_def runs_request_def
      worklist_request_def dest!: trace_execute)

theorem run_for_steps_witness:
  "run_for_call demo_marshal (ChecksRunner (conn_upto 9) ''V'') ''sel'' None net0 =
     (Inr \<lparr>run_response = ''4711'', worklist = ''4711''\<rparr>,
      \<lparr>connection = conn_upto 9, variant = ''V'', worklist_id = Some ''4711''\<rparr>,
      \<lparr>world = 3, trace =
        [\<lparr>http_method = ''POST'', path = ''atc/worklists'', params = [(''checkVariant'', ''V'')],
          accept = Some (AcceptOne ''text/plain''), content_type = None, body = None\<rparr>,
         \<lparr>http_method = ''POST'', path = ''atc/runs'', params = [(''worklistId'', ''4711'')],
          accept = Some (AcceptOne ''application/xml''),
          content_type = Some ''application/xml'', body = Some ''sel''\<rparr>,
         \<lparr>http_method = ''GET'', path = ''atc/worklists/4711'',
          params = [(''includeExemptedFindings'', ''false'')],
          accept = Some (AcceptOne ''application/atc.worklist.v1+xml''),
          content_type = None, body = None\<rparr>]\<rparr>) \<and>
   run_for_call
     (\<lparr>serialize = (\<lambda>rq. Inl ''TypeError''), deserialize_run_response = Inr,
      deserialize_worklist = Inr\<rparr> :: (string, string, string, string) marshal)
     (ChecksRunner (conn_upto 9) ''V'') ''sel'' None net0 =
     (Inl ''TypeError'', ChecksRunner (conn_upto 9) ''V'', net0) \<and>
   run_for_call
     (\<lparr>serialize = (\<lambda>rq. Inr (sets rq)),
      deserialize_run_response = (\<lambda>t. Inl ''SAXParseException''),
      deserialize_worklist = Inr\<rparr> :: (string, string, string, string) marshal)
     (ChecksRunner (conn_upto 9) ''V'') ''sel'' None net0 =
     (Inl ''SAXParseException'',
      \<lparr>connection = conn_upto 9, variant = ''V'', worklist_id = Some ''4711''\<rparr>,
      \<lparr>world = 2, trace =
        [\<lparr>http_method = ''POST'', path = ''atc/worklists'', params = [(''checkVariant'', ''V'')],
          accept = Some (AcceptOne ''text/plain''), content_type = None, body = None\<rparr>,
         \<lparr>http_method = ''POST'', path = ''atc/runs'', params = [(''worklistId'', ''4711'')],
          accept = Some (AcceptOne ''application/xml''),
          content_type = Some ''application/xml'', body = Some ''sel''\<rparr>]\<rparr>)"
proof -
  let ?r0 = "ChecksRunner (conn_upto 9) ''V''"
  let ?r1 = "\<lparr>connection = conn_upto 9, variant = ''V'', worklist_id = Some ''4711''\<rparr>"
  let ?n1 = "\<lparr>world = 1, trace = [worklists_request ''V'']\<rparr> :: nat net"
  let ?n2 = "\<lparr>world = 2, trace = [worklists_request ''V'', runs_request ''4711'' ''sel'']\<rparr> :: nat net"
  let ?n3 = "\<lparr>world = 3, trace = [worklists_request ''V'', runs_request ''4711'' ''sel'',
    worklist_request ''4711'']\<rparr> :: nat net"
  let ?M2 = "\<lparr>serialize = (\<lambda>rq. Inl ''TypeError''), deserialize_run_response = Inr,
      deserialize_worklist = Inr\<rparr> :: (string, string, string, string) marshal"
  let ?M3 = "\<lparr>serialize = (\<lambda>rq. Inr (sets rq)),
      deserialize_run_response = (\<lambda>t. Inl ''SAXParseException''),
      deserialize_worklist = Inr\<rparr> :: (string, string, string, string) marshal"
  have 1: "serialize demo_marshal
      \<lparr>sets = ''sel'', max_verdicts = (case None of None \<Rightarrow> 100 | Some mv \<Rightarrow> mv)\<rparr> = Inr ''sel''"
    by (simp add: demo_marshal_def)
  have 2: "get_id ?r0 net0 = (Inr ''4711'', ?r1, ?n1)"
    by (simp add: ChecksRunner_def get_id_conn_upto net0_def)
  have 3: "execute (connection ?r1)
           \<lparr>http_method = ''POST'', path = ''atc/runs'', params = [(''worklistId'', ''4711'')],
            accept = Some (AcceptOne ''application/xml''),
            content_type = Some ''application/xml'', body = Some ''sel''\<rparr> ?n1 =
         (Inr \<lparr>resp_text = ''4711''\<rparr>, ?n2)"
    by (simp add: execute_conn_upto runs_request_def)
  have 4: "deserialize_run_response demo_marshal (resp_text \<lparr>resp_text = ''4711''\<rparr>) = Inr ''4711''"
    by (simp add: demo_marshal_def)
  have 5: "execute (connection ?r1)
           \<lparr>http_method = ''GET'', path = ''atc/worklists/'' @ ''4711'',
            params = [(''includeExemptedFindings'', ''false'')],
            accept = Some (AcceptOne ''application/atc.worklist.v1+xml''),
            content_type = None, body = None\<rparr> ?n2 =
         (Inr \<lparr>resp_text = ''4711''\<rparr>, ?n3)"
    by (simp add: execute_conn_upto worklist_request_def)
  have 6: "deserialize_worklist demo_marshal (resp_text \<lparr>resp_text = ''4711''\<rparr>) = Inr ''4711''"
    by (simp add: demo_marshal_def)
  note a1 = run_for_steps [where M = demo_marshal and self = ?r0 and obj_sets = "''sel''"
      and mvo = None and n = net0, THEN conjunct2, THEN spec, THEN mp, OF 1]
  note a2 = a1 [THEN conjunct2, THEN spec, THEN spec, THEN spec, THEN mp, OF 2]
  note a3 = a2 [THEN conjunct2, THEN spec, THEN spec, THEN mp, OF 3]
  note a4 = a3 [THEN conjunct2, THEN conjunct2, THEN spec, THEN mp, OF 4]
  note a5 = a4 [THEN conjunct2, THEN spec, THEN spec, THEN mp, OF 5]
  note a6 = a5 [THEN conjunct2, THEN conjunct2, THEN spec, THEN mp, OF 6]
  have b1: "serialize ?M2
      \<lparr>sets = ''sel'', max_verdicts = (case None of None \<Rightarrow> 100 | Some mv \<Rightarrow> mv)\<rparr> =
      Inl ''TypeError''"
    by simp
  note b2 = run_for_steps [where M = ?M2 and self = ?r0 and obj_sets = "''sel''"
      and mvo = None and n = net0, THEN conjunct1, THEN spec, THEN mp, OF b1]
  have c1: "serialize ?M3
      \<lparr>sets = ''sel'', max_verdicts = (case None of None \<Rightarrow> 100 | Some mv \<Rightarrow> mv)\<rparr> =
      Inr ''sel''"
    by simp
  have c4: "deserialize_run_response ?M3 (resp_text \<lparr>resp_text = ''4711''\<rparr>) =
      Inl ''SAXParseException''"
    by simp
  note d1 = run_for_steps [where M = ?M3 and self = ?r0 and obj_sets = "''sel''"
      and mvo = None and n = net0, THEN conjunct2, THEN spec, THEN mp, OF c1]
  note d2 = d1 [THEN conjunct2, THEN spec, THEN spec, THEN spec, THEN mp, OF 2]
  note d3 = d2 [THEN conjunct2, THEN spec, THEN spec, THEN mp, OF 3]
  note d4 = d3 [THEN conjunct2, THEN conjunct1, THEN spec, THEN mp, OF c4]
  from a6 b2 d4 show ?thesis
    by (simp add: worklists_request_def runs_request_def worklist_request_def)
qed

subsection \<open>The contract of \_get\_id\<close>

text \<open>
  C3. When the runner holds no identifier, \<^verbatim>\<open>_get_id\<close> makes exactly one request, the
  POST of atc/worklists with the parameter checkVariant set to the variant given to the
  constructor and with text/plain accepted; when the request is answered, the text of the
  answer, as it is, is returned and is the identifier the runner holds from then on (when
  the request raises, the call raises the same). When the runner holds an identifier,
  \<^verbatim>\<open>_get_id\<close> returns it and changes neither the runner nor the net: it makes no request.
\<close>

theorem get_id_contract:
  "(worklist_id (ChecksRunner conn v) = None \<and>
    (\<exists>r n'. execute conn
        \<lparr>http_method = ''POST'', path = ''atc/worklists'', params = [(''checkVariant'', v)],
         accept = Some (AcceptOne ''text/plain''), content_type = None, body = None\<rparr> n = (r, n') \<and>
      trace n' = trace n @
        [\<lparr>http_method = ''POST'', path = ''atc/worklists'', params = [(''checkVariant'', v)],
          accept = Some (AcceptOne ''text/plain''), content_type = None, body = None\<rparr>] \<and>
      get_id (ChecksRunner conn v) n =
        (case r of
           Inl e \<Rightarrow> (Inl e, ChecksRunner conn v, n')
         | Inr resp \<Rightarrow>
             (Inr (resp_text resp),
              (ChecksRunner conn v)\<lparr>worklist_id := Some (resp_text resp)\<rparr>, n')))) \<and>
   (\<forall>i. worklist_id self = Some i \<longrightarrow> get_id self n = (Inr i, self, n))"
  by (auto simp: get_id_def execute_def ChecksRunner_def worklists_request_def
      split: prod.splits sum.splits)

theorem get_id_contract_witness:
  "get_id (ChecksRunner (conn_upto 9) ''V'') net0 =
     (Inr ''4711'', \<lparr>connection = conn_upto 9, variant = ''V'', worklist_id = Some ''4711''\<rparr>,
      \<lparr>world = 1, trace = [worklists_request ''V'']\<rparr>) \<and>
   get_id \<lparr>connection = conn_upto 9, variant = ''V'', worklist_id = Some ''4711''\<rparr>
      \<lparr>world = 1, trace = [worklists_request ''V'']\<rparr> =
     (Inr ''4711'', \<lparr>connection = conn_upto 9, variant = ''V'', worklist_id = Some ''4711''\<rparr>,
      \<lparr>world = 1, trace = [worklists_request ''V'']\<rparr>)"
proof -
  let ?r1 = "\<lparr>connection = conn_upto 9, variant = ''V'', worklist_id = Some ''4711''\<rparr>"
  let ?n1 = "\<lparr>world = 1, trace = [worklists_request ''V'']\<rparr> :: nat net"
  have "worklist_id ?r1 = Some ''4711''" by simp
  with get_id_contract [where self = ?r1 and n = ?n1, THEN conjunct2]
  have "get_id ?r1 ?n1 = (Inr ''4711'', ?r1, ?n1)" by blast
  moreover from get_id_contract [where conn = "conn_upto 9" and v = "''V''" and n = net0,
      THEN conjunct1]
  have "get_id (ChecksRunner (conn_upto 9) ''V'') net0 = (Inr ''4711'', ?r1, ?n1)"
    by (auto simp: execute_conn_upto net0_def ChecksRunner_def worklists_request_def)
  ultimately show ?thesis by simp
qed

subsection \<open>Failures\<close>

text \<open>
  C6. In a call of \<^verbatim>\<open>run_for\<close> that has serialized its request to \<open>b\<close> and obtained
  the identifier \<open>i\<close>: when the connection raises \<open>e\<close> at the submission of the run, the
  call raises the same \<open>e\<close> and the submission is the last and only request made after
  \<^verbatim>\<open>_get_id\<close>; when the submission is answered, the answer deserializes and the
  connection raises \<open>e\<close> at the fetch of the results, the call raises the same \<open>e\<close> and
  there is one submission and one fetch, no more.
\<close>

theorem run_for_transport_failure:
  assumes "serialize M (RunRequest obj_sets mv) = Inr b"
    and "get_id self n = (Inr i, self1, n1)"
  shows "(execute (connection self1) (runs_request i b) n1 = (Inl e, n2) \<longrightarrow>
            run_for M self obj_sets mv n = (Inl e, self1, n2) \<and>
            trace n2 = trace n1 @ [runs_request i b]) \<and>
         (execute (connection self1) (runs_request i b) n1 = (Inr resp, n2) \<and>
          deserialize_run_response M (resp_text resp) = Inr rr \<and>
          execute (connection self1) (worklist_request i) n2 = (Inl e, n3) \<longrightarrow>
            run_for M self obj_sets mv n = (Inl e, self1, n3) \<and>
            trace n3 = trace n1 @ [runs_request i b, worklist_request i])"
proof (intro conjI impI)
  assume a: "execute (connection self1) (runs_request i b) n1 = (Inl e, n2)"
  with assms show "run_for M self obj_sets mv n = (Inl e, self1, n2)"
    by (simp add: run_for_def)
  from a show "trace n2 = trace n1 @ [runs_request i b]"
    by (rule trace_execute)
next
  assume a: "execute (connection self1) (runs_request i b) n1 = (Inr resp, n2) \<and>
          deserialize_run_response M (resp_text resp) = Inr rr \<and>
          execute (connection self1) (worklist_request i) n2 = (Inl e, n3)"
  with assms show "run_for M self obj_sets mv n = (Inl e, self1, n3)"
    by (simp add: run_for_def)
  from a have "trace n2 = trace n1 @ [runs_request i b]"
    and "trace n3 = trace n2 @ [worklist_request i]"
    by (auto dest: trace_execute)
  then show "trace n3 = trace n1 @ [runs_request i b, worklist_request i]"
    by simp
qed

theorem run_for_transport_failure_witness:
  "run_for demo_marshal (ChecksRunner (conn_upto 1) ''V'') ''sel'' 100 net0 =
     (Inl ''ConnectionError'',
      \<lparr>connection = conn_upto 1, variant = ''V'', worklist_id = Some ''4711''\<rparr>,
      \<lparr>world = 2, trace = [worklists_request ''V'', runs_request ''4711'' ''sel'']\<rparr>) \<and>
   run_for demo_marshal (ChecksRunner (conn_upto 2) ''V'') ''sel'' 100 net0 =
     (Inl ''ConnectionError'',
      \<lparr>connection = conn_upto 2, variant = ''V'', worklist_id = Some ''4711''\<rparr>,
      \<lparr>world = 3, trace = [worklists_request ''V'', runs_request ''4711'' ''sel'',
         worklist_request ''4711'']\<rparr>)"
proof -
  have s: "serialize demo_marshal (RunRequest ''sel'' 100) = Inr ''sel''"
    by (simp add: demo_marshal_def RunRequest_def)
  have g: "get_id (ChecksRunner (conn_upto k) ''V'') net0 =
      (Inr ''4711'', \<lparr>connection = conn_upto k, variant = ''V'', worklist_id = Some ''4711''\<rparr>,
       \<lparr>world = 1, trace = [worklists_request ''V'']\<rparr>)" if "0 < k" for k
    using that by (simp add: ChecksRunner_def get_id_conn_upto net0_def)
  have a: "execute (connection \<lparr>connection = conn_upto 1, variant = ''V'', worklist_id = Some ''4711''\<rparr>)
       (runs_request ''4711'' ''sel'') \<lparr>world = 1, trace = [worklists_request ''V'']\<rparr> =
     (Inl ''ConnectionError'',
       \<lparr>world = 2, trace = [worklists_request ''V'', runs_request ''4711'' ''sel'']\<rparr>)"
    by (simp add: execute_conn_upto)
  have b: "execute (connection \<lparr>connection = conn_upto 2, variant = ''V'', worklist_id = Some ''4711''\<rparr>)
       (runs_request ''4711'' ''sel'') \<lparr>world = 1, trace = [worklists_request ''V'']\<rparr> =
     (Inr \<lparr>resp_text = ''4711''\<rparr>,
       \<lparr>world = 2, trace = [worklists_request ''V'', runs_request ''4711'' ''sel'']\<rparr>) \<and>
     deserialize_run_response demo_marshal (resp_text \<lparr>resp_text = ''4711''\<rparr>) = Inr ''4711'' \<and>
     execute (connection \<lparr>connection = conn_upto 2, variant = ''V'', worklist_id = Some ''4711''\<rparr>)
       (worklist_request ''4711'')
       \<lparr>world = 2, trace = [worklists_request ''V'', runs_request ''4711'' ''sel'']\<rparr> =
     (Inl ''ConnectionError'',
       \<lparr>world = 3, trace = [worklists_request ''V'', runs_request ''4711'' ''sel'',
          worklist_request ''4711'']\<rparr>)"
    by (simp add: execute_conn_upto demo_marshal_def)
  have g1: "get_id (ChecksRunner (conn_upto 1) ''V'') net0 =
      (Inr ''4711'', \<lparr>connection = conn_upto 1, variant = ''V'', worklist_id = Some ''4711''\<rparr>,
       \<lparr>world = 1, trace = [worklists_request ''V'']\<rparr>)"
    by (rule g) simp
  have g2: "get_id (ChecksRunner (conn_upto 2) ''V'') net0 =
      (Inr ''4711'', \<lparr>connection = conn_upto 2, variant = ''V'', worklist_id = Some ''4711''\<rparr>,
       \<lparr>world = 1, trace = [worklists_request ''V'']\<rparr>)"
    by (rule g) simp
  from run_for_transport_failure [OF s g1, THEN conjunct1, THEN mp, OF a]
    run_for_transport_failure [OF s g2, THEN conjunct2, THEN mp, OF b]
  show ?thesis by simp
qed

text \<open>
  C7. When the runner holds no identifier and the creation request raises \<open>e\<close>,
  \<^verbatim>\<open>_get_id\<close> raises \<open>e\<close> and the runner is what it was before the call, still
  without an identifier; the next call of \<^verbatim>\<open>_get_id\<close> starts over: it makes the
  creation request again.
\<close>

theorem get_id_failure_keeps_unset:
  assumes "worklist_id self = None"
    and "execute (connection self) (worklists_request (variant self)) n = (Inl e, n')"
  shows "get_id self n = (Inl e, self, n') \<and>
         (\<exists>r self'' n''. get_id self n' = (r, self'', n'') \<and>
            trace n'' = trace n @
              [worklists_request (variant self), worklists_request (variant self)])"
proof -
  from assms have 1: "get_id self n = (Inl e, self, n')"
    by (simp add: get_id_def)
  obtain r n'' where 2: "execute (connection self) (worklists_request (variant self)) n' = (r, n'')"
    by (cases "execute (connection self) (worklists_request (variant self)) n'")
  from assms(2) 2 have 3: "trace n'' = trace n @
      [worklists_request (variant self), worklists_request (variant self)]"
    by (auto dest!: trace_execute)
  from assms(1) 2 have "\<exists>r' self''. get_id self n' = (r', self'', n'')"
    by (cases r) (simp_all add: get_id_def)
  with 1 3 show ?thesis by blast
qed

theorem get_id_failure_keeps_unset_witness:
  "get_id (ChecksRunner (conn_upto 0) ''V'') net0 =
     (Inl ''ConnectionError'', ChecksRunner (conn_upto 0) ''V'',
      \<lparr>world = 1, trace = [worklists_request ''V'']\<rparr>) \<and>
   worklist_id (ChecksRunner (conn_upto 0) ''V'') = None \<and>
   (\<exists>r self'' n''. get_id (ChecksRunner (conn_upto 0) ''V'')
        \<lparr>world = 1, trace = [worklists_request ''V'']\<rparr> = (r, self'', n'') \<and>
      trace n'' = [worklists_request ''V'', worklists_request ''V''])"
proof -
  let ?r0 = "ChecksRunner (conn_upto 0) ''V'' :: (nat, string) checks_runner"
  have 1: "worklist_id ?r0 = None" by (simp add: ChecksRunner_def)
  have 2: "execute (connection ?r0) (worklists_request (variant ?r0)) net0 =
      (Inl ''ConnectionError'', \<lparr>world = 1, trace = [worklists_request ''V'']\<rparr>)"
    by (simp add: ChecksRunner_def execute_conn_upto net0_def)
  from get_id_failure_keeps_unset [OF 1 2] 1 show ?thesis
    by (simp add: ChecksRunner_def net0_def)
qed

subsection \<open>What no call changes\<close>

text \<open>
  C10. Over any history of calls of \<^verbatim>\<open>_get_id\<close> and \<^verbatim>\<open>run_for\<close> on a runner,
  whatever the calls return or raise: the connection and the variant of the runner stay
  what they are, and an identifier the runner holds stays the identifier it holds.
\<close>

theorem runner_fields_stable:
  "calls M cs (self, n) = (self', n') \<Longrightarrow>
     connection self' = connection self \<and> variant self' = variant self \<and>
     (\<forall>i. worklist_id self = Some i \<longrightarrow> worklist_id self' = Some i)"
proof (induction cs arbitrary: self n)
  case Nil
  then show ?case by (simp add: calls_def)
next
  case (Cons c cs)
  obtain s1 n1 where 1: "call_step M c (self, n) = (s1, n1)"
    by (cases "call_step M c (self, n)")
  with Cons.prems have "calls M cs (s1, n1) = (self', n')" by (simp add: calls_def)
  from Cons.IH [OF this] call_step_frame [OF 1] show ?case by auto
qed

theorem runner_fields_stable_witness:
  "(\<exists>self' n'.
      calls demo_marshal [RunFor ''a'' None, GetId, RunFor ''b'' (Some 3)]
        (\<lparr>connection = conn_upto 1, variant = ''V'', worklist_id = Some ''W''\<rparr>, net0) = (self', n') \<and>
      connection self' = conn_upto 1 \<and> variant self' = ''V'' \<and> worklist_id self' = Some ''W'')"
proof -
  let ?self = "\<lparr>connection = conn_upto 1, variant = ''V'', worklist_id = Some ''W''\<rparr>"
  obtain self' n' where 1: "calls demo_marshal [RunFor ''a'' None, GetId, RunFor ''b'' (Some 3)]
      (?self, net0) = (self', n')"
    by (cases "calls demo_marshal [RunFor ''a'' None, GetId, RunFor ''b'' (Some 3)] (?self, net0)")
  from runner_fields_stable [OF 1] have "connection self' = conn_upto 1 \<and> variant self' = ''V'' \<and>
      worklist_id self' = Some ''W''"
    by simp
  with 1 show ?thesis by blast
qed

subsection \<open>The customizing\<close>

lemma foldl_handle_event:
  "system_check_variant (foldl handle_event cust evs) =
     (case filter variant_property evs of
        [] \<Rightarrow> system_check_variant cust
      | m # ms \<Rightarrow> attribute (last (m # ms)) ''value'')"
proof (induction evs rule: rev_induct)
  case Nil
  then show ?case by simp
next
  case (snoc ev evs)
  then show ?case
    by (cases ev) (auto simp: startElement_def split: list.splits)
qed

text \<open>
  C9. When the GET of atc/customizing is answered and the answer parses,
  \<^verbatim>\<open>fetch_customizing\<close> returns a customizing whose \<^verbatim>\<open>system_check_variant\<close> is
  decided by the start tags named property whose attribute name is systemCheckVariant:
  \<open>None\<close> when the document has none, and otherwise what the last of them in document
  order has as its attribute value, which is \<open>None\<close> when that tag has no such attribute,
  whatever the tags before it had.
\<close>

theorem fetch_customizing_last_property:
  assumes "execute conn customizing_request n = (Inr resp, n')"
    and "parseString (resp_text resp) = Inr evs"
  shows "\<exists>cust. fetch_customizing parseString conn n = (Inr cust, n') \<and>
           system_check_variant cust =
             (case filter variant_property evs of
                [] \<Rightarrow> None
              | m # ms \<Rightarrow> attribute (last (m # ms)) ''value'')"
  using assms
  by (simp add: fetch_customizing_def foldl_handle_event Customizing_def split: list.splits)

theorem fetch_customizing_last_property_witness:
  "(\<exists>cust. fetch_customizing demo_parse (conn_upto 1) net0 =
       (Inr cust, \<lparr>world = 1, trace = [customizing_request]\<rparr>) \<and>
     system_check_variant cust = Some ''NEW'')"
proof -
  have 1: "execute (conn_upto 1) customizing_request net0 =
      (Inr \<lparr>resp_text = ''4711''\<rparr>, \<lparr>world = 1, trace = [customizing_request]\<rparr>)"
    by (simp add: execute_conn_upto net0_def)
  have 2: "demo_parse (resp_text \<lparr>resp_text = ''4711''\<rparr>) = Inr demo_events"
    by (simp add: demo_parse_def)
  from fetch_customizing_last_property [where parseString = demo_parse, OF 1 2] show ?thesis
    by (simp add: demo_events_def)
qed


section \<open>Callers that overlap\<close>

text \<open>One caller that moves alone, four times, does what \<^verbatim>\<open>_get_id\<close> does.\<close>

lemma one_caller_is_get_id:
  "run_schedule ([AtTest], self, n) [0, 0, 0, 0] =
     (case get_id self n of
        (Inl e, self', n') \<Rightarrow> ([Raised e], self', n')
      | (Inr i, self', n') \<Rightarrow> ([Returned (Some i)], self', n'))"
  by (auto simp: run_schedule_def get_id_def split: prod.splits sum.splits option.splits)

lemma first_caller_alone:
  assumes "worklist_id self = None"
    and "run_schedule ([AtTest, AtTest], self, n) [0, 0, 0, 0] = ([Returned (Some i), AtTest], self1, n1)"
  shows "worklist_id self1 = Some i \<and> trace n1 = trace n @ [worklists_request (variant self)]"
proof -
  obtain r n' where e: "execute (connection self) (worklists_request (variant self)) n = (r, n')"
    by (cases "execute (connection self) (worklists_request (variant self)) n")
  show ?thesis
  proof (cases r)
    case (Inl x)
    with assms e show ?thesis by (simp add: run_schedule_def)
  next
    case (Inr resp)
    with assms e trace_execute [OF e] show ?thesis by (auto simp: run_schedule_def)
  qed
qed

text \<open>
  C8, as stated, fails: nothing serializes the test and the assignment. Two callers of
  one new runner that take turns, statement by statement, both find the identifier unset
  and both make the creation request: the trace holds two creation requests, the work
  list I of the first request is overwritten by the work list II of the second one, and
  both callers return II.
\<close>

theorem get_id_overlapping_callers_create_twice:
  "run_schedule ([AtTest, AtTest], ChecksRunner conn_fresh ''V'', net0) [0, 1, 0, 1, 0, 1, 0, 1] =
     ([Returned (Some ''II''), Returned (Some ''II'')],
      \<lparr>connection = conn_fresh, variant = ''V'', worklist_id = Some ''II''\<rparr>,
      \<lparr>world = 2, trace = [worklists_request ''V'', worklists_request ''V'']\<rparr>)"
  by (simp add: run_schedule_def ChecksRunner_def net0_def execute_def conn_fresh_def
      numeral_2_eq_2)

text \<open>
  C8, amended. Callers of one runner that do not overlap create the identifier at most
  once: when the first caller has run alone on a runner without an identifier and has
  returned \<open>i\<close>, it has made exactly one creation request, and a second caller that runs
  after it returns the same \<open>i\<close> and leaves the runner and the net, and so the trace, as
  they are.
\<close>

theorem get_id_callers_in_turn_create_once:
  assumes "worklist_id self = None"
    and "run_schedule ([AtTest, AtTest], self, n) [0, 0, 0, 0] = ([Returned (Some i), AtTest], self1, n1)"
  shows "run_schedule ([Returned (Some i), AtTest], self1, n1) [1, 1, 1, 1] =
           ([Returned (Some i), Returned (Some i)], self1, n1) \<and>
         trace n1 = trace n @ [worklists_request (variant self)]"
  using first_caller_alone [OF assms] by (simp add: run_schedule_def)

theorem get_id_callers_in_turn_create_once_witness:
  "run_schedule ([AtTest, AtTest], ChecksRunner conn_fresh ''V'', net0) [0, 0, 0, 0, 1, 1, 1, 1] =
     ([Returned (Some ''I''), Returned (Some ''I'')],
      \<lparr>connection = conn_fresh, variant = ''V'', worklist_id = Some ''I''\<rparr>,
      \<lparr>world = 1, trace = [worklists_request ''V'']\<rparr>)"
proof -
  let ?self = "ChecksRunner conn_fresh ''V''"
  let ?self1 = "\<lparr>connection = conn_fresh, variant = ''V'', worklist_id = Some ''I''\<rparr>"
  let ?n1 = "\<lparr>world = 1, trace = [worklists_request ''V'']\<rparr> :: nat net"
  have 1: "worklist_id ?self = None" by (simp add: ChecksRunner_def)
  have 2: "run_schedule ([AtTest, AtTest], ?self, net0) [0, 0, 0, 0] =
      ([Returned (Some ''I''), AtTest], ?self1, ?n1)"
    by (simp add: run_schedule_def ChecksRunner_def net0_def execute_def conn_fresh_def)
  have "run_schedule ([AtTest, AtTest], ?self, net0) ([0, 0, 0, 0] @ [1, 1, 1, 1]) =
      run_schedule (run_schedule ([AtTest, AtTest], ?self, net0) [0, 0, 0, 0]) [1, 1, 1, 1]"
    unfolding run_schedule_def by (rule foldl_append)
  also have "\<dots> = run_schedule ([Returned (Some ''I''), AtTest], ?self1, ?n1) [1, 1, 1, 1]"
    by (simp only: 2)
  also have "\<dots> = ([Returned (Some ''I''), Returned (Some ''I'')], ?self1, ?n1)"
    by (rule get_id_callers_in_turn_create_once [OF 1 2, THEN conjunct1])
  finally show ?thesis by simp
qed

section \<open>Properties of the marshalling engine\<close>

subsection \<open>The stack of frames and the descent into the tree\<close>

lemma foldl_step_events:
  "foldl step (p # fs) (events t) = absorb p t # fs"
  "foldl step (p # fs) (concat (map events ts)) = absorb_all p ts # fs"
proof (induction p t and p ts arbitrary: fs and fs rule: absorb_absorb_all.induct)
  case (1 p name attrs children)
  obtain p' c where oc: "open_child p name (map_of attrs) = (p', c)"
    by (cases "open_child p name (map_of attrs)")
  from 1 [OF oc [symmetric]] oc show ?case by simp
next
  case (2 p s)
  then show ?case by (cases p) simp_all
next
  case (3 p)
  then show ?case by simp
next
  case (4 p t ts)
  then show ?case by simp
qed

lemma goes_to_commit: "goes_to (commit c p) = goes_to p"
  by (induction c p rule: commit.induct) simp_all

lemma goes_to_open_child: "open_child p name attrs = (p', c) \<Longrightarrow> goes_to p' = goes_to p"
  by (induction p name attrs rule: open_child.induct)
    (auto split: option.splits binding.splits if_splits)

lemma goes_to_absorb:
  "goes_to (absorb p t) = goes_to p"
  "goes_to (absorb_all p ts) = goes_to p"
proof (induction p t and p ts rule: absorb_absorb_all.induct)
  case (1 p name attrs children)
  then show ?case
    by (auto split: prod.splits simp: goes_to_commit dest: goes_to_open_child)
next
  case (2 p s)
  then show ?case by (cases p) simp_all
qed simp_all

lemma commit_into_field:
  "goes_to c = Some f \<Longrightarrow>
     \<exists>v. commit c (ObjectFrame bs inst seen tg) = ObjectFrame bs (set_field f v inst) seen tg"
proof (cases c)
  case (ObjectFrame bs' inst' seen' tg')
  assume "goes_to c = Some f"
  with ObjectFrame show ?thesis by (cases tg') auto
next
  case (ContainerFrame en ek items tg')
  assume "goes_to c = Some f"
  with ContainerFrame show ?thesis by (cases tg') auto
qed auto

lemma get_field_set_field:
  "get_field (set_field f v inst) g = (if g = f then Some v else get_field inst g)"
  by (induction inst) (auto simp: get_field_def)

lemma goes_to_new_frame: "goes_to (new_frame k attrs (Field f)) = Some f"
  by (cases k) simp_all

subsection \<open>The decimal format\<close>

lemma digit_value_digit_char: "d < 10 \<Longrightarrow> digit_value (digit_char d) = Some d"
proof -
  assume "d < 10"
  then have "d \<in> {0, 1, 2, 3, 4, 5, 6, 7, 8, 9}" by auto
  then show ?thesis by (auto simp: digit_char_def digit_value_def digit_table_def)
qed

lemma parse_digits_append:
  "parse_digits acc (xs @ [c]) =
     (case parse_digits acc xs of
        None \<Rightarrow> None
      | Some a \<Rightarrow> map_option (\<lambda>d. 10 * a + d) (digit_value c))"
  by (induction xs arbitrary: acc) (auto split: option.splits)

lemma parse_digits_digits: "parse_digits 0 (digits n) = Some n"
proof (induction n rule: digits.induct)
  case (1 n)
  show ?case
  proof (cases "n < 10")
    case True
    then show ?thesis by (simp add: digit_value_digit_char)
  next
    case False
    with 1 have "parse_digits 0 (digits (n div 10)) = Some (n div 10)" by simp
    with False show ?thesis
      by (subst digits.simps) (simp add: parse_digits_append digit_value_digit_char)
  qed
qed

lemma digits_not_empty: "digits n \<noteq> []"
  by (subst digits.simps) simp

lemma parse_digits_Cons_minus: "parse_digits acc (CHR ''-'' # cs) = None"
  by (simp add: digit_value_def digit_table_def)

lemma decimal_round_trip: "parse_decimal (show_decimal n) = Some n"
proof (cases "n < 0")
  case True
  then show ?thesis
    by (simp add: show_decimal_def digits_not_empty parse_digits_digits del: digits.simps)
next
  case False
  obtain c cs where d: "digits (nat n) = c # cs"
    using digits_not_empty [of "nat n"] by (cases "digits (nat n)") auto
  have p: "parse_digits 0 (c # cs) = Some (nat n)"
    using parse_digits_digits [of "nat n"] d by simp
  have "c \<noteq> CHR ''-''"
  proof
    assume "c = CHR ''-''"
    with p parse_digits_Cons_minus [of 0 cs] show False by simp
  qed
  with False d p show ?thesis
    by (simp add: show_decimal_def del: digits.simps parse_digits.simps)
qed

lemma deserialize_document:
  "Marshal_deserialize (ObjectKind d bs) (events (Elem name attrs cs)) tgt =
     (case absorb_all (ObjectFrame bs (read_attributes bs (map_of attrs) tgt) [] Root) cs of
        ObjectFrame bs' inst seen Root \<Rightarrow> Inr inst
      | _ \<Rightarrow> Inl ParseError)"
  by (simp add: foldl_step_events split: frame.splits target.splits)

subsection \<open>A run request\<close>

text \<open>
  The attribute maximumVerdicts is written from the number as its decimal text, and it is
  read back as that text: \<^verbatim>\<open>RunRequest\<close> declares it by its name only, and the
  engine does not turn a text into a number by itself. What is read back does not depend
  on the target that is filled, nor on the object sets.
\<close>

lemma run_request_read_back:
  "\<exists>v. Marshal_deserialize (RunRequest_kind sets_kind)
        (events (Elem root
          [(''xmlns:atc'', ''http://www.sap.com/adt/atc''), (''maximumVerdicts'', s)]
          [Elem ''objectSets'' a cs])) tgt =
      Inr (set_field ''sets'' v (set_field ''max_verdicts'' (Str s) tgt))"
proof -
  let ?bs = "[Attribute ''max_verdicts'' ''maximumVerdicts'' TextT,
              Element ''sets'' ''objectSets'' sets_kind]"
  let ?root = "ObjectFrame ?bs (set_field ''max_verdicts'' (Str s) tgt) [] Root"
  let ?c = "absorb_all (new_frame sets_kind (map_of a) (Field ''sets'')) cs"
  have g: "goes_to ?c = Some ''sets''"
    by (simp only: goes_to_absorb goes_to_new_frame)
  have "\<exists>v. commit ?c ?root =
      ObjectFrame ?bs (set_field ''sets'' v (set_field ''max_verdicts'' (Str s) tgt)) [] Root"
    using g by (rule commit_into_field)
  then obtain v where v: "commit ?c ?root =
      ObjectFrame ?bs (set_field ''sets'' v (set_field ''max_verdicts'' (Str s) tgt)) [] Root" ..
  have f: "Marshal_deserialize (RunRequest_kind sets_kind)
        (events (Elem root
          [(''xmlns:atc'', ''http://www.sap.com/adt/atc''), (''maximumVerdicts'', s)]
          [Elem ''objectSets'' a cs])) tgt =
      Inr (set_field ''sets'' v (set_field ''max_verdicts'' (Str s) tgt))"
    unfolding RunRequest_kind_def deserialize_document
    using v by simp
  show ?thesis
    by (rule exI [of _ v]) (rule f)
qed

text \<open>
  C4, as stated, fails in its last part. The run request with \<^verbatim>\<open>max_verdicts\<close> = 100
  and object sets without content serializes to the element atc:run with the attribute
  maximumVerdicts = 100 and the one child objectSets; deserializing this document into a
  new instance gives a \<^verbatim>\<open>max_verdicts\<close> that is the text 100, and not the number 100.
\<close>

theorem run_request_reads_text_not_number:
  "Marshal_serialize (RunRequest_kind (ObjectKind None []))
      (run_request_instance (RunRequest (Nested []) 100)) =
     Inr (Elem ''atc:run''
       [(''xmlns:atc'', ''http://www.sap.com/adt/atc''), (''maximumVerdicts'', ''100'')]
       [Elem ''objectSets'' [] []]) \<and>
   Marshal_deserialize (RunRequest_kind (ObjectKind None []))
      (events (Elem ''atc:run''
        [(''xmlns:atc'', ''http://www.sap.com/adt/atc''), (''maximumVerdicts'', ''100'')]
        [Elem ''objectSets'' [] []])) [] =
     Inr [(''max_verdicts'', Str ''100''), (''sets'', Nested [])] \<and>
   get_field [(''max_verdicts'', Str ''100''), (''sets'', Nested [])] ''max_verdicts'' \<noteq>
     Some (Number 100)"
proof -
  have "digits 100 = ''100''"
    by (simp add: digit_char_def)
  then show ?thesis
    by (simp add: RunRequest_kind_def run_request_instance_def RunRequest_def
        RunRequest_objtype_def XMLNS_ATC_def xmlelement_def get_field_def show_decimal_def)
qed

text \<open>
  C4, amended. A run request with \<^verbatim>\<open>max_verdicts\<close> = 100 and object sets \<open>sel\<close>, an
  instance of any object kind, serializes to the document whose root is the element
  atc:run, with the declaration of the namespace atc and the attribute maximumVerdicts =
  100, and whose only child is the element objectSets written for \<open>sel\<close>. Deserializing
  this document into an instance of the kind, new or not, gives an instance whose
  \<^verbatim>\<open>max_verdicts\<close> is the text 100, the decimal text of the number.
\<close>

theorem run_request_round_trip:
  "Marshal_serialize (RunRequest_kind (ObjectKind d bs))
      (run_request_instance (RunRequest (Nested sel) 100)) =
     Inr (Elem ''atc:run''
       [(''xmlns:atc'', ''http://www.sap.com/adt/atc''), (''maximumVerdicts'', ''100'')]
       [Elem ''objectSets'' (ns_declaration d @ emit_attributes bs sel) (emit_children bs sel)]) \<and>
   (\<exists>inst.
      Marshal_deserialize (RunRequest_kind (ObjectKind d bs))
        (events (Elem ''atc:run''
          [(''xmlns:atc'', ''http://www.sap.com/adt/atc''), (''maximumVerdicts'', ''100'')]
          [Elem ''objectSets'' (ns_declaration d @ emit_attributes bs sel)
             (emit_children bs sel)])) tgt = Inr inst \<and>
      get_field inst ''max_verdicts'' = Some (Str ''100'') \<and>
      stringify (Number 100) = Some ''100'')"
proof -
  have d: "digits 100 = ''100''"
    by (simp add: digit_char_def)
  then have 1: "Marshal_serialize (RunRequest_kind (ObjectKind d bs))
      (run_request_instance (RunRequest (Nested sel) 100)) =
     Inr (Elem ''atc:run''
       [(''xmlns:atc'', ''http://www.sap.com/adt/atc''), (''maximumVerdicts'', ''100'')]
       [Elem ''objectSets'' (ns_declaration d @ emit_attributes bs sel) (emit_children bs sel)])"
    by (simp add: RunRequest_kind_def run_request_instance_def RunRequest_def
        RunRequest_objtype_def XMLNS_ATC_def xmlelement_def get_field_def show_decimal_def)
  obtain v where 2: "Marshal_deserialize (RunRequest_kind (ObjectKind d bs))
        (events (Elem ''atc:run''
          [(''xmlns:atc'', ''http://www.sap.com/adt/atc''), (''maximumVerdicts'', ''100'')]
          [Elem ''objectSets'' (ns_declaration d @ emit_attributes bs sel)
             (emit_children bs sel)])) tgt =
      Inr (set_field ''sets'' v (set_field ''max_verdicts'' (Str ''100'') tgt))"
    using run_request_read_back by blast
  have 3: "get_field (set_field ''sets'' v (set_field ''max_verdicts'' (Str ''100'') tgt))
      ''max_verdicts'' = Some (Str ''100'')"
    by (simp add: get_field_set_field)
  have 4: "stringify (Number 100) = Some ''100''"
    using d by (simp add: show_decimal_def)
  from 1 2 3 4 show ?thesis by blast
qed

text \<open>
  A binding that declares the decimal type, which no class of atc.py does, reads the
  number back.
\<close>

lemma decimal_binding_reads_number:
  "Marshal_deserialize
      (ObjectKind (Some RunRequest_objtype)
        [Attribute ''max_verdicts'' ''maximumVerdicts'' DecimalT])
      (events (Elem ''atc:run'' [(''maximumVerdicts'', show_decimal mv)] [])) [] =
     Inr [(''max_verdicts'', Number mv)]"
  by (simp add: decimal_round_trip)

subsection \<open>A run response\<close>


lemma deserialize_response_without_infos:
  "Marshal_deserialize RunResponse_kind (events response_without_infos) tgt =
     Inr (set_field ''timestamp'' (Str ''20230101000000'')
       (set_field ''worklist_id'' (Str ''4711'') tgt))"
  by (simp add: RunResponse_kind_def response_without_infos_def)

lemma run_response_without_infos_element:
  "case Marshal_deserialize RunResponse_kind (events response_without_infos) tgt of
     Inl e \<Rightarrow> False
   | Inr inst \<Rightarrow>
       get_field inst ''worklist_id'' = Some (Str ''4711'') \<and>
       get_field inst ''timestamp'' = Some (Str ''20230101000000'') \<and>
       get_field inst ''infos'' = get_field tgt ''infos''"
  by (simp add: deserialize_response_without_infos get_field_set_field)


end
